theory Spec2Isabelle
  imports Complex_Main
begin

section \<open>Python values as the tools see them\<close>

text \<open>
  Every tool of \<^verbatim>\<open>src/tools/ops_tools.py\<close> receives its structured argument as a JSON
  string and decodes it with \<^verbatim>\<open>json.loads\<close>. The model starts from the decoded value.
  A dictionary is an association list read with \<open>map_of\<close>; a finite float is the
  rational number it denotes.
\<close>

datatype json =
    JNull
  | JBool bool
  | JInt int
  | JFloat rat
  | JStr string
  | JArr "json list"
  | JObj "(string \<times> json) list"

datatype py_error = AttributeError | TypeError | ValueError | KeyError

type_synonym dict = "(string \<times> json) list"

text \<open>Python's truth value of a decoded JSON value (\<^verbatim>\<open>bool(v)\<close>).\<close>

fun truthy :: "json \<Rightarrow> bool" where
  "truthy JNull = False"
| "truthy (JBool b) = b"
| "truthy (JInt n) = (n \<noteq> 0)"
| "truthy (JFloat x) = (x \<noteq> 0)"
| "truthy (JStr s) = (s \<noteq> [])"
| "truthy (JArr xs) = (xs \<noteq> [])"
| "truthy (JObj kvs) = (kvs \<noteq> [])"

text \<open>\<^verbatim>\<open>d.get(k, default)\<close> on a dictionary.\<close>

definition dict_get :: "dict \<Rightarrow> string \<Rightarrow> json \<Rightarrow> json" where
  "dict_get d k dflt = (case map_of d k of None \<Rightarrow> dflt | Some v \<Rightarrow> v)"

section \<open>Configuration (\<^verbatim>\<open>src/config/settings.py\<close>)\<close>

definition personal_documents :: "string list" where
  "personal_documents =
     [''signed_application'', ''proof_of_income'', ''bank_statements'', ''proof_of_identity'']"

definition REQUIRED_DOCUMENTS :: "(string \<times> string list) list" where
  "REQUIRED_DOCUMENTS =
     [(''mortgage'',
         [''signed_application'', ''proof_of_income'', ''bank_statements'', ''tax_returns'',
          ''property_appraisal'', ''title_insurance'', ''homeowners_insurance'',
          ''flood_certification'']),
      (''personal'', personal_documents),
      (''auto'',
         [''signed_application'', ''proof_of_income'', ''proof_of_insurance'',
          ''vehicle_title'', ''purchase_agreement'']),
      (''business'',
         [''signed_application'', ''business_tax_returns'', ''financial_statements'',
          ''business_license'', ''personal_guarantee'', ''collateral_documentation''])]"

definition COMPLIANCE_CHECKS :: "string list" where
  "COMPLIANCE_CHECKS =
     [''anti_money_laundering'', ''know_your_customer'', ''truth_in_lending'',
      ''equal_credit_opportunity'', ''fair_lending'', ''flood_insurance'',
      ''privacy_disclosure'']"

text \<open>\<^verbatim>\<open>SLA_THRESHOLDS["document_follow_up"]\<close>.\<close>

definition SLA_document_follow_up :: nat where
  "SLA_document_follow_up = 24"

section \<open>DocumentCheckerTool\<close>

text \<open>
  \<^verbatim>\<open>required = REQUIRED_DOCUMENTS.get(loan_type, REQUIRED_DOCUMENTS["personal"])\<close>
\<close>

definition required_documents :: "string \<Rightarrow> string list" where
  "required_documents loan_type =
     (case map_of REQUIRED_DOCUMENTS loan_type of
        None \<Rightarrow> personal_documents
      | Some ds \<Rightarrow> ds)"

record checker_lists =
  missing :: "string list"
  expired :: "string list"
  pending_verification :: "string list"

text \<open>
  One pass of the loop body over a required name. \<^verbatim>\<open>received[doc].get("status")\<close>
  raises AttributeError when the entry is not an object; a status that is none of
  the three compared strings (also an absent or non-string one) appends nothing.
\<close>

definition classify :: "dict \<Rightarrow> string \<Rightarrow> checker_lists \<Rightarrow> py_error + checker_lists" where
  "classify received doc acc =
     (case map_of received doc of
        None \<Rightarrow> Inr (acc\<lparr>missing := missing acc @ [doc]\<rparr>)
      | Some (JObj entry) \<Rightarrow>
          (if map_of entry ''status'' = Some (JStr ''pending'')
             then Inr (acc\<lparr>missing := missing acc @ [doc]\<rparr>)
           else if map_of entry ''status'' = Some (JStr ''expired'')
             then Inr (acc\<lparr>expired := expired acc @ [doc]\<rparr>)
           else if map_of entry ''status'' = Some (JStr ''received'')
             then Inr (acc\<lparr>pending_verification := pending_verification acc @ [doc]\<rparr>)
           else Inr acc)
      | Some _ \<Rightarrow> Inl AttributeError)"

fun check_loop :: "dict \<Rightarrow> string list \<Rightarrow> checker_lists \<Rightarrow> py_error + checker_lists" where
  "check_loop received [] acc = Inr acc"
| "check_loop received (doc # docs) acc =
     (case classify received doc acc of
        Inl e \<Rightarrow> Inl e
      | Inr acc' \<Rightarrow> check_loop received docs acc')"

record checker_result =
  cr_loan_id :: string
  cr_loan_type :: string
  total_required :: nat
  missing_documents :: "string list"
  expired_documents :: "string list"
  cr_pending_verification :: "string list"
  collection_complete :: bool
  sla_hours_remaining :: nat
  action_required :: bool

definition DocumentChecker_run :: "string \<Rightarrow> string \<Rightarrow> dict \<Rightarrow> py_error + checker_result" where
  "DocumentChecker_run loan_id loan_type received =
     (let required = required_documents loan_type in
      case check_loop received required
             \<lparr>missing = [], expired = [], pending_verification = []\<rparr> of
        Inl e \<Rightarrow> Inl e
      | Inr acc \<Rightarrow>
          Inr \<lparr>cr_loan_id = loan_id,
               cr_loan_type = loan_type,
               total_required = length required,
               missing_documents = missing acc,
               expired_documents = expired acc,
               cr_pending_verification = pending_verification acc,
               collection_complete = (length (missing acc) = 0 \<and> length (expired acc) = 0),
               sla_hours_remaining = SLA_document_follow_up,
               action_required = (length (missing acc) > 0 \<or> length (expired acc) > 0)\<rparr>)"

text \<open>The status string stored for a document, when the entry is an object that has one.\<close>

definition status_of :: "dict \<Rightarrow> string \<Rightarrow> json option" where
  "status_of received doc =
     (case map_of received doc of
        Some (JObj entry) \<Rightarrow> map_of entry ''status''
      | _ \<Rightarrow> None)"

definition entries_are_objects :: "dict \<Rightarrow> string list \<Rightarrow> bool" where
  "entries_are_objects received docs =
     list_all (\<lambda>doc. case map_of received doc of
                        None \<Rightarrow> True | Some (JObj _) \<Rightarrow> True | Some _ \<Rightarrow> False) docs"

text \<open>The five tags of the enum \<^verbatim>\<open>DocumentStatus\<close> in \<^verbatim>\<open>src/models/loan_file.py\<close>.\<close>

definition status_tags :: "string list" where
  "status_tags = [''pending'', ''received'', ''verified'', ''rejected'', ''expired'']"

definition statuses_well_formed :: "dict \<Rightarrow> string list \<Rightarrow> bool" where
  "statuses_well_formed received docs =
     list_all (\<lambda>doc. map_of received doc = None \<or>
                     (case status_of received doc of
                        Some (JStr s) \<Rightarrow> s \<in> set status_tags
                      | _ \<Rightarrow> False)) docs"

text \<open>The three classes of the loop, as predicates on a required name.\<close>

definition is_missing :: "dict \<Rightarrow> string \<Rightarrow> bool" where
  "is_missing received doc =
     (map_of received doc = None \<or> status_of received doc = Some (JStr ''pending''))"

definition is_expired :: "dict \<Rightarrow> string \<Rightarrow> bool" where
  "is_expired received doc = (status_of received doc = Some (JStr ''expired''))"

definition is_received :: "dict \<Rightarrow> string \<Rightarrow> bool" where
  "is_received received doc = (status_of received doc = Some (JStr ''received''))"

text \<open>A name the loop puts on none of its lists.\<close>

definition is_unlisted :: "dict \<Rightarrow> string \<Rightarrow> bool" where
  "is_unlisted received doc =
     (map_of received doc \<noteq> None \<and>
      status_of received doc \<noteq> Some (JStr ''pending'') \<and>
      status_of received doc \<noteq> Some (JStr ''expired'') \<and>
      status_of received doc \<noteq> Some (JStr ''received''))"

definition is_verified_or_rejected :: "dict \<Rightarrow> string \<Rightarrow> bool" where
  "is_verified_or_rejected received doc =
     (status_of received doc = Some (JStr ''verified'') \<or>
      status_of received doc = Some (JStr ''rejected''))"

text \<open>Two received-document maps used as concrete inputs below.\<close>

definition sample_received :: dict where
  "sample_received =
     [(''signed_application'', JObj [(''status'', JStr ''verified'')]),
      (''proof_of_income'', JObj [(''status'', JStr ''received'')]),
      (''bank_statements'', JObj [(''status'', JStr ''expired'')])]"

definition archived_received :: dict where
  "archived_received = [(''signed_application'', JObj [(''status'', JStr ''archived'')])]"

section \<open>The clock\<close>

text \<open>
  A naive \<^verbatim>\<open>datetime\<close>: the proleptic Gregorian ordinal of the day and the microseconds
  since midnight. \<^verbatim>\<open>datetime.now()\<close> is read from a clock that the tools take as an
  argument; \<open>clock i\<close> is the result of the \<open>i\<close>-th call within one run.
\<close>

record datetime =
  ordinal :: int
  micros :: nat

definition micros_per_day :: int where
  "micros_per_day = 86400000000"

definition valid_datetime :: "datetime \<Rightarrow> bool" where
  "valid_datetime t = (int (micros t) < micros_per_day)"

text \<open>The microseconds from \<open>b\<close> to \<open>a\<close>, and \<^verbatim>\<open>(a - b).days\<close>: its floor in days.\<close>

definition elapsed_micros :: "datetime \<Rightarrow> datetime \<Rightarrow> int" where
  "elapsed_micros a b =
     (ordinal a - ordinal b) * micros_per_day + int (micros a) - int (micros b)"

definition timedelta_days :: "datetime \<Rightarrow> datetime \<Rightarrow> int" where
  "timedelta_days a b = elapsed_micros a b div micros_per_day"

text \<open>The datetime \<^verbatim>\<open>strptime(s, "%Y-%m-%d")\<close> returns for a date: its midnight.\<close>

definition midnight :: "int \<Rightarrow> datetime" where
  "midnight d = \<lparr>ordinal = d, micros = 0\<rparr>"

section \<open>DocumentVerifierTool\<close>

text \<open>\<^verbatim>\<open>', '.join(xs)\<close> and its like.\<close>

fun join :: "string \<Rightarrow> string list \<Rightarrow> string" where
  "join sep [] = []"
| "join sep [x] = x"
| "join sep (x # y # ys) = x @ sep @ join sep (y # ys)"

text \<open>\<^verbatim>\<open>checks[k] = v\<close> for a key the dictionary has: the entry keeps its place.\<close>

fun dict_set :: "(string \<times> 'v) list \<Rightarrow> string \<Rightarrow> 'v \<Rightarrow> (string \<times> 'v) list" where
  "dict_set [] k v = [(k, v)]"
| "dict_set ((k', v') # kvs) k v =
     (if k' = k then (k', v) # kvs else (k', v') # dict_set kvs k v)"

definition date_sensitive :: "string list" where
  "date_sensitive = [''proof_of_income'', ''bank_statements'']"

text \<open>
  The freshness block. \<open>strptime\<close> stands for Python's
  \<^verbatim>\<open>datetime.strptime(_, "%Y-%m-%d")\<close>: the ordinal of the day a string denotes, or
  \<open>None\<close> where it raises ValueError. The result is the updated check table and the
  number of clock readings used.
\<close>

definition expiration_check ::
  "(string \<Rightarrow> int option) \<Rightarrow> (nat \<Rightarrow> datetime) \<Rightarrow> string \<Rightarrow> dict \<Rightarrow> dict
     \<Rightarrow> py_error + (dict \<times> nat)" where
  "expiration_check strptime clock document_name data checks =
     (if document_name \<in> set date_sensitive then
        (let doc_date = dict_get data ''document_date'' JNull in
         if truthy doc_date then
           (case doc_date of
              JStr s \<Rightarrow>
                (case strptime s of
                   None \<Rightarrow> Inl ValueError
                 | Some d \<Rightarrow>
                     if timedelta_days (clock 0) (midnight d) > 90
                       then Inr (dict_set checks ''not_expired'' (JBool False), 1)
                       else Inr (checks, 1))
            | _ \<Rightarrow> Inl TypeError)
         else Inr (checks, 0))
      else Inr (checks, 0))"

record verifier_result =
  vr_document_name :: string
  verification_passed :: bool
  verification_date :: datetime
  checks_performed :: dict
  vr_failed_checks :: "string list"
  vr_recommendation :: string
  vr_notes :: string

definition initial_checks :: "dict \<Rightarrow> dict" where
  "initial_checks data =
     [(''document_present'', JBool True),
      (''legible'', JBool True),
      (''complete'', dict_get data ''pages_complete'' (JBool True)),
      (''not_expired'', JBool True),
      (''signatures_valid'', dict_get data ''signed'' (JBool True)),
      (''dates_consistent'', JBool True)]"

definition falsy_keys :: "dict \<Rightarrow> string list" where
  "falsy_keys checks = map fst (filter (\<lambda>kv. \<not> truthy (snd kv)) checks)"

definition DocumentVerifier_run ::
  "(string \<Rightarrow> int option) \<Rightarrow> (nat \<Rightarrow> datetime) \<Rightarrow> string \<Rightarrow> dict
     \<Rightarrow> py_error + verifier_result" where
  "DocumentVerifier_run strptime clock document_name data =
     (case expiration_check strptime clock document_name data (initial_checks data) of
        Inl e \<Rightarrow> Inl e
      | Inr (checks, used) \<Rightarrow>
          (let all_passed = list_all truthy (map snd checks);
               failed_checks = falsy_keys checks
           in Inr \<lparr>vr_document_name = document_name,
                   verification_passed = all_passed,
                   verification_date = clock used,
                   checks_performed = checks,
                   vr_failed_checks = failed_checks,
                   vr_recommendation =
                     (if all_passed then ''VERIFIED'' else ''REQUIRES_ATTENTION''),
                   vr_notes = ''Document '' @
                     (if all_passed then ''verified successfully''
                      else ''failed verification: '' @ join '', '' failed_checks)\<rparr>))"

section \<open>ComplianceValidatorTool\<close>

text \<open>Python's \<^verbatim>\<open>a or b\<close>: the first operand when it is true, else the second.\<close>

definition py_or :: "json \<Rightarrow> json \<Rightarrow> json" where
  "py_or a b = (if truthy a then a else b)"

text \<open>The body of the loop for one check name: \<^verbatim>\<open>passed\<close> and \<^verbatim>\<open>findings\<close>.\<close>

definition run_check :: "dict \<Rightarrow> string \<Rightarrow> json \<times> string option" where
  "run_check data check =
     (if check = ''anti_money_laundering'' then
        (let passed = dict_get data ''aml_cleared'' (JBool True)
         in (passed, if truthy passed then None
                     else Some ''AML flag detected - requires review''))
      else if check = ''know_your_customer'' then
        (let passed = dict_get data ''kyc_verified'' (JBool True)
         in (passed, if truthy passed then None else Some ''KYC verification incomplete''))
      else if check = ''truth_in_lending'' then
        (let passed = dict_get data ''tila_disclosed'' (JBool True)
         in (passed, if truthy passed then None else Some ''TILA disclosure missing''))
      else if check = ''equal_credit_opportunity'' then (JBool True, None)
      else if check = ''fair_lending'' then (JBool True, None)
      else if check = ''flood_insurance'' then
        (if map_of data ''loan_type'' = Some (JStr ''mortgage'') then
           (let passed = py_or (dict_get data ''flood_cert_clear'' (JBool True))
                               (dict_get data ''flood_insurance_obtained'' (JBool False))
            in (passed, if truthy passed then None
                        else Some ''Flood insurance required but not obtained''))
         else (JBool True, Some ''N/A - not a mortgage''))
      else (JBool True, None))"

record compliance_entry =
  check_name :: string
  passed :: json
  findings :: "string option"
  checked_date :: datetime

definition check_entry :: "dict \<Rightarrow> (nat \<Rightarrow> datetime) \<Rightarrow> nat \<times> string \<Rightarrow> string \<times> compliance_entry" where
  "check_entry data clock ic =
     (case ic of (i, check) \<Rightarrow>
        (check, \<lparr>check_name = check,
                 passed = fst (run_check data check),
                 findings = snd (run_check data check),
                 checked_date = clock i\<rparr>))"

record compliance_result =
  cv_loan_id :: string
  compliance_passed :: bool
  total_checks :: nat
  passed_checks :: int
  cv_failed_checks :: "string list"
  results :: "(string \<times> compliance_entry) list"
  cv_recommendation :: string

definition ComplianceValidator_run ::
  "(nat \<Rightarrow> datetime) \<Rightarrow> string \<Rightarrow> dict \<Rightarrow> compliance_result" where
  "ComplianceValidator_run clock loan_id data =
     (let results = map (check_entry data clock) (enumerate 0 COMPLIANCE_CHECKS);
          all_passed = list_all (\<lambda>kv. truthy (passed (snd kv))) results;
          failed = map fst (filter (\<lambda>kv. \<not> truthy (passed (snd kv))) results)
      in \<lparr>cv_loan_id = loan_id,
          compliance_passed = all_passed,
          total_checks = length COMPLIANCE_CHECKS,
          passed_checks = int (length COMPLIANCE_CHECKS) - int (length failed),
          cv_failed_checks = failed,
          results = results,
          cv_recommendation = (if all_passed then ''CLEARED'' else ''REQUIRES_REMEDIATION'')\<rparr>)"

section \<open>ExceptionAnalyzerTool\<close>

definition resolutions :: "(string \<times> (string \<times> string list) list) list" where
  "resolutions =
     [(''document'',
        [(''missing'', [''Request document from borrower'', ''Set follow-up reminder'',
                        ''Escalate if SLA breached'']),
         (''expired'', [''Request updated document'', ''Verify if recent version exists'']),
         (''illegible'', [''Request clearer copy'', ''Accept if key information readable'']),
         (''incomplete'', [''Request missing pages'', ''Verify completeness requirements''])]),
      (''compliance'',
        [(''failed_check'', [''Review findings'', ''Request remediation'',
                             ''Escalate to compliance officer'']),
         (''pending_review'', [''Expedite review'', ''Provide additional documentation'']),
         (''requires_override'', [''Document justification'',
                                  ''Obtain management approval''])]),
      (''verification'',
        [(''mismatch'', [''Investigate discrepancy'',
                         ''Request clarification from borrower'']),
         (''unable_to_verify'', [''Try alternate verification method'',
                                 ''Request additional proof'']),
         (''fraud_flag'', [''Escalate immediately'', ''Suspend processing'',
                           ''Notify fraud team''])]),
      (''funding'',
        [(''insufficient_funds'', [''Verify funding source'', ''Delay funding date'']),
         (''wire_error'', [''Verify wire instructions'', ''Resubmit wire request'']),
         (''hold_required'', [''Identify hold reason'', ''Resolve blocking issues''])])]"

text \<open>
  \<^verbatim>\<open>resolutions.get(exception_type, {}).get(issue, ["Escalate to supervisor"])\<close>.
  The issue is whatever the details hold: a list or an object cannot be hashed
  (TypeError), any other value that is not a string is no key of the table.
\<close>

definition lookup_resolutions :: "string \<Rightarrow> json \<Rightarrow> py_error + string list" where
  "lookup_resolutions exception_type issue =
     (let by_issue = (case map_of resolutions exception_type of None \<Rightarrow> [] | Some t \<Rightarrow> t)
      in case issue of
           JArr _ \<Rightarrow> Inl TypeError
         | JObj _ \<Rightarrow> Inl TypeError
         | JStr s \<Rightarrow>
             (case map_of by_issue s of
                None \<Rightarrow> Inr [''Escalate to supervisor'']
              | Some rs \<Rightarrow> Inr rs)
         | _ \<Rightarrow> Inr [''Escalate to supervisor''])"

definition severity_of :: "string \<Rightarrow> json \<Rightarrow> string" where
  "severity_of exception_type issue =
     (if exception_type = ''verification'' \<and> issue = JStr ''fraud_flag'' then ''critical''
      else if exception_type = ''compliance'' \<and> issue = JStr ''failed_check'' then ''high''
      else if exception_type = ''document'' \<and> issue = JStr ''missing'' then ''low''
      else ''medium'')"

record analyzer_result =
  exception_type :: string
  issue :: json
  severity :: string
  impact_assessment :: string
  proposed_resolutions :: "string list"
  recommended_action :: string
  escalation_required :: bool
  sla_impact :: bool

definition ExceptionAnalyzer_run :: "string \<Rightarrow> dict \<Rightarrow> py_error + analyzer_result" where
  "ExceptionAnalyzer_run etype details =
     (let issue = dict_get details ''issue'' (JStr ''unknown'') in
      case lookup_resolutions etype issue of
        Inl e \<Rightarrow> Inl e
      | Inr available_resolutions \<Rightarrow>
          (let severity = severity_of etype issue
           in Inr \<lparr>exception_type = etype,
                   issue = issue,
                   severity = severity,
                   impact_assessment =
                     (if severity \<in> set [''high'', ''critical''] then ''Blocks funding''
                      else ''May delay funding''),
                   proposed_resolutions = available_resolutions,
                   recommended_action =
                     (case available_resolutions of [] \<Rightarrow> ''Escalate'' | a # _ \<Rightarrow> a),
                   escalation_required = (severity \<in> set [''high'', ''critical'']),
                   sla_impact = (severity \<noteq> ''low'')\<rparr>))"

text \<open>
  A mortgage input whose flags other than \<^verbatim>\<open>aml_cleared\<close> are all true, and a concrete
  one with the given \<^verbatim>\<open>aml_cleared\<close>.
\<close>

definition compliant_mortgage :: "dict \<Rightarrow> bool" where
  "compliant_mortgage data =
     (map_of data ''loan_type'' = Some (JStr ''mortgage'') \<and>
      map_of data ''kyc_verified'' = Some (JBool True) \<and>
      map_of data ''tila_disclosed'' = Some (JBool True) \<and>
      map_of data ''flood_cert_clear'' = Some (JBool True))"

definition mortgage_data :: "bool \<Rightarrow> dict" where
  "mortgage_data aml =
     [(''loan_type'', JStr ''mortgage''), (''aml_cleared'', JBool aml),
      (''kyc_verified'', JBool True), (''tila_disclosed'', JBool True),
      (''flood_cert_clear'', JBool True)]"

text \<open>The issue tags the table has for a category.\<close>

definition known_issue :: "string \<Rightarrow> string \<Rightarrow> bool" where
  "known_issue etype s =
     (case map_of resolutions etype of None \<Rightarrow> False | Some t \<Rightarrow> map_of t s \<noteq> None)"


definition sample_strptime :: "string \<Rightarrow> int option" where
  "sample_strptime s = (if s = ''2024-01-01'' then Some 738886 else None)"

definition noon_after :: "int \<Rightarrow> nat \<Rightarrow> datetime" where
  "noon_after days i = \<lparr>ordinal = 738886 + days, micros = 43200000000\<rparr>"

section \<open>CommunicationDrafterTool\<close>

text \<open>
  Strings are byte strings: a character outside ASCII is its UTF-8 bytes. The two
  formatting primitives of Python that the f-strings use on values of the context are
  arguments of the model: \<open>repr\<close> renders a value that is not a string
  (\<^verbatim>\<open>f"{v}"\<close>), and \<open>fmt2f\<close> is \<^verbatim>\<open>format(v, ",.2f")\<close>, which raises on values that
  are not numbers.
\<close>

definition nl :: string where
  "nl = [CHR 0x0A]"

text \<open>A template text of the source: a newline, then each line with its newline.\<close>

definition template :: "string list \<Rightarrow> string" where
  "template ls = nl @ concat (map (\<lambda>l. l @ nl) ls)"

definition py_str :: "(json \<Rightarrow> string) \<Rightarrow> json \<Rightarrow> string" where
  "py_str repr v = (case v of JStr s \<Rightarrow> s | _ \<Rightarrow> repr v)"

text \<open>The prefix of each requested document, as the bytes of the source literal.\<close>

definition bullet :: string where
  "bullet = [CHR 0xC3, CHR 0xA2, CHR 0xE2, CHR 0x82, CHR 0xAC, CHR 0xC2, CHR 0xA2, CHR 0x20]"

text \<open>
  A Python string is a sequence of code points. In the byte strings of the model a code
  point is the group of bytes that its first byte announces (one byte below 0xC0, two
  below 0xE0, three below 0xF0, four from there on), and \<open>code_points\<close> cuts a string
  into these groups.
\<close>

definition utf8_length :: "char \<Rightarrow> nat" where
  "utf8_length c =
     (if (of_char c :: nat) < 0xC0 then 1
      else if (of_char c :: nat) < 0xE0 then 2
      else if (of_char c :: nat) < 0xF0 then 3
      else 4)"

function code_points :: "string \<Rightarrow> string list" where
  "code_points [] = []"
| "code_points (c # cs) =
     (c # take (utf8_length c - 1) cs) # code_points (drop (utf8_length c - 1) cs)"
  by pat_completeness auto
termination
  by (relation "measure length") auto

text \<open>What a \<^verbatim>\<open>for\<close> loop iterates over: the elements of a list, the code points
  of a string (each a string of its own), the keys of an object; anything else raises
  TypeError.\<close>

definition iterate :: "json \<Rightarrow> py_error + json list" where
  "iterate v =
     (case v of
        JArr xs \<Rightarrow> Inr xs
      | JStr s \<Rightarrow> Inr (map JStr (code_points s))
      | JObj kvs \<Rightarrow> Inr (map (\<lambda>kv. JStr (fst kv)) kvs)
      | _ \<Rightarrow> Inl TypeError)"

text \<open>\<^verbatim>\<open>'* ' + doc for doc in ...\<close>: concatenation with anything but a string raises.\<close>

fun bullet_lines :: "json list \<Rightarrow> py_error + string list" where
  "bullet_lines [] = Inr []"
| "bullet_lines (JStr s # docs) =
     (case bullet_lines docs of Inl e \<Rightarrow> Inl e | Inr ls \<Rightarrow> Inr ((bullet @ s) # ls))"
| "bullet_lines (_ # docs) = Inl TypeError"

definition document_request_template :: "string \<Rightarrow> dict \<Rightarrow> py_error + string" where
  "document_request_template recipient_name ctx =
     (case iterate (dict_get ctx ''missing_documents'' (JArr [JStr ''Required document''])) of
        Inl e \<Rightarrow> Inl e
      | Inr docs \<Rightarrow>
          (case bullet_lines docs of
             Inl e \<Rightarrow> Inl e
           | Inr ls \<Rightarrow>
               Inr (template
                 [''Dear '' @ recipient_name @ '','',
                  '''',
                  ''We are processing your loan application and need the following document(s) to proceed:'',
                  '''',
                  join nl ls,
                  '''',
                  ''Please submit these documents at your earliest convenience. You can:'',
                  ''- Upload securely through our portal'',
                  ''- Email to loans@example.com'',
                  ''- Fax to (555) 123-4567'',
                  '''',
                  ''If you have any questions, please contact us at (555) 987-6543.'',
                  '''',
                  ''Thank you for your prompt attention to this matter.'',
                  '''',
                  ''Best regards,'',
                  ''Loan Operations Team''])))"

definition status_update_template :: "(json \<Rightarrow> string) \<Rightarrow> string \<Rightarrow> dict \<Rightarrow> string" where
  "status_update_template repr recipient_name ctx =
     template
       [''Dear '' @ recipient_name @ '','',
        '''',
        ''This is an update on your loan application (Loan #'' @
          py_str repr (dict_get ctx ''loan_id'' (JStr ''N/A'')) @ ''):'',
        '''',
        ''Current Status: '' @ py_str repr (dict_get ctx ''status'' (JStr ''In Progress'')),
        (if truthy (dict_get ctx ''next_steps'' JNull)
           then ''Next Steps: '' @ py_str repr (dict_get ctx ''next_steps'' (JStr ''''))
           else ''''),
        (if truthy (dict_get ctx ''funding_date'' JNull)
           then ''Estimated Funding Date: '' @
                  py_str repr (dict_get ctx ''funding_date'' (JStr ''''))
           else ''''),
        '''',
        ''We will keep you informed of any updates. If you have questions, please don'' @
          [CHR 0x27] @ ''t hesitate to reach out.'',
        '''',
        ''Best regards,'',
        ''Loan Operations Team'']"

definition funding_notice_template ::
  "(json \<Rightarrow> string) \<Rightarrow> (json \<Rightarrow> py_error + string) \<Rightarrow> string \<Rightarrow> dict
     \<Rightarrow> py_error + string" where
  "funding_notice_template repr fmt2f recipient_name ctx =
     (case fmt2f (dict_get ctx ''loan_amount'' (JInt 0)) of
        Inl e \<Rightarrow> Inl e
      | Inr amount \<Rightarrow>
          (case fmt2f (dict_get ctx ''net_disbursement'' (JInt 0)) of
             Inl e \<Rightarrow> Inl e
           | Inr net \<Rightarrow>
               Inr (template
                 [''Dear '' @ recipient_name @ '','',
                  '''',
                  ''Great news! Your loan (#'' @
                    py_str repr (dict_get ctx ''loan_id'' (JStr ''N/A'')) @
                    '') has been approved for funding.'',
                  '''',
                  ''Funding Details:'',
                  ''- Loan Amount: $'' @ amount,
                  ''- Net Disbursement: $'' @ net,
                  ''- Funding Method: '' @
                    py_str repr (dict_get ctx ''funding_method'' (JStr ''Wire Transfer'')),
                  ''- Expected Funding Date: '' @
                    py_str repr (dict_get ctx ''funding_date''
                                   (JStr ''Within 2 business days'')),
                  '''',
                  ''Please ensure your receiving account information is accurate. Funds will be disbursed to:'',
                  ''Account ending in: '' @
                    py_str repr (dict_get ctx ''account_last4'' (JStr ''****'')),
                  '''',
                  ''Congratulations on your new loan!'',
                  '''',
                  ''Best regards,'',
                  ''Loan Operations Team''])))"

definition exception_notice_template :: "(json \<Rightarrow> string) \<Rightarrow> string \<Rightarrow> dict \<Rightarrow> string" where
  "exception_notice_template repr recipient_name ctx =
     template
       [''Dear '' @ recipient_name @ '','',
        '''',
        ''We'' @ [CHR 0x27] @ ''ve encountered an issue while processing your loan application that requires your attention:'',
        '''',
        ''Issue: '' @
          py_str repr (dict_get ctx ''issue_description''
                         (JStr ''Additional information needed'')),
        '''',
        ''Action Required: '' @
          py_str repr (dict_get ctx ''action_required'' (JStr ''Please contact us'')),
        '''',
        ''This may affect your expected funding timeline. Please respond within '' @
          py_str repr (dict_get ctx ''response_deadline'' (JStr ''48 hours'')) @
          '' to avoid delays.'',
        '''',
        ''Contact us at (555) 987-6543 or reply to this message.'',
        '''',
        ''Thank you for your cooperation.'',
        '''',
        ''Best regards,'',
        ''Loan Operations Team'']"

text \<open>
  The dictionary \<^verbatim>\<open>templates\<close>. Its four values are all computed before one is chosen,
  in the order of the literal, so an error in any of them ends the run.
\<close>

definition templates ::
  "(json \<Rightarrow> string) \<Rightarrow> (json \<Rightarrow> py_error + string) \<Rightarrow> string \<Rightarrow> dict
     \<Rightarrow> py_error + (string \<times> string) list" where
  "templates repr fmt2f recipient_name ctx =
     (case document_request_template recipient_name ctx of
        Inl e \<Rightarrow> Inl e
      | Inr request \<Rightarrow>
          (case funding_notice_template repr fmt2f recipient_name ctx of
             Inl e \<Rightarrow> Inl e
           | Inr notice \<Rightarrow>
               Inr [(''document_request'', request),
                    (''status_update'', status_update_template repr recipient_name ctx),
                    (''funding_notice'', notice),
                    (''exception_notice'',
                       exception_notice_template repr recipient_name ctx)]))"

definition subjects :: "(json \<Rightarrow> string) \<Rightarrow> dict \<Rightarrow> (string \<times> string) list" where
  "subjects repr ctx =
     [(''document_request'',
         ''Action Required: Documents Needed for Loan #'' @
           py_str repr (dict_get ctx ''loan_id'' (JStr ''''))),
      (''status_update'',
         ''Loan Status Update - #'' @ py_str repr (dict_get ctx ''loan_id'' (JStr ''''))),
      (''funding_notice'', ''Congratulations! Your Loan is Ready for Funding''),
      (''exception_notice'', ''Action Required: Issue with Your Loan Application'')]"

text \<open>\<^verbatim>\<open>str.strip()\<close> on a byte string: the ASCII whitespace at both ends goes.\<close>

definition is_space :: "char \<Rightarrow> bool" where
  "is_space c = (c \<in> set [CHR 0x20, CHR 0x09, CHR 0x0A, CHR 0x0B, CHR 0x0C, CHR 0x0D,
                           CHR 0x1C, CHR 0x1D, CHR 0x1E, CHR 0x1F])"

definition strip :: "string \<Rightarrow> string" where
  "strip s = rev (dropWhile is_space (rev (dropWhile is_space s)))"

record communication =
  communication_type :: string
  recipient :: string
  subject :: string
  body :: string
  priority :: string
  drafted_at :: datetime

definition CommunicationDrafter_run ::
  "(json \<Rightarrow> string) \<Rightarrow> (json \<Rightarrow> py_error + string) \<Rightarrow> (nat \<Rightarrow> datetime)
     \<Rightarrow> string \<Rightarrow> string \<Rightarrow> dict \<Rightarrow> py_error + communication" where
  "CommunicationDrafter_run repr fmt2f clock ctype recipient_name ctx =
     (case templates repr fmt2f recipient_name ctx of
        Inl e \<Rightarrow> Inl e
      | Inr ts \<Rightarrow>
          (let draft = (case map_of ts ctype of
                          None \<Rightarrow> status_update_template repr recipient_name ctx
                        | Some t \<Rightarrow> t)
           in Inr \<lparr>communication_type = ctype,
                   recipient = recipient_name,
                   subject = (case map_of (subjects repr ctx) ctype of
                                None \<Rightarrow> ''Loan Update'' | Some s \<Rightarrow> s),
                   body = strip draft,
                   priority =
                     (if ctype \<in> set [''document_request'', ''exception_notice'']
                        then ''high'' else ''normal''),
                   drafted_at = clock 0\<rparr>))"

definition known_types :: "string list" where
  "known_types = [''document_request'', ''status_update'', ''funding_notice'', ''exception_notice'']"

text \<open>Sample formatting primitives, right on the values the examples below use.\<close>

definition sample_repr :: "json \<Rightarrow> string" where
  "sample_repr v = (case v of JNull \<Rightarrow> ''None'' | JInt n \<Rightarrow> (if n = 0 then ''0'' else ''?'')
                    | _ \<Rightarrow> ''?'')"

definition sample_fmt2f :: "json \<Rightarrow> py_error + string" where
  "sample_fmt2f v =
     (case v of
        JInt n \<Rightarrow> (if n = 0 then Inr ''0.00'' else Inr ''?'')
      | JFloat x \<Rightarrow> Inr ''?''
      | JBool b \<Rightarrow> Inr ''?''
      | JStr s \<Rightarrow> Inl ValueError
      | _ \<Rightarrow> Inl TypeError)"

section \<open>The loan file (\<^verbatim>\<open>src/models/loan_file.py\<close>)\<close>

text \<open>
  The dataclasses do not check their annotations, and \<^verbatim>\<open>from_json\<close> stores what the
  file holds, so a field is a decoded JSON value (\<open>JNull\<close> for \<^verbatim>\<open>None\<close>); only the two
  enumerations are converted. The field names carry a prefix per class.
\<close>

datatype DocumentStatus = PENDING | RECEIVED | VERIFIED | REJECTED | EXPIRED

datatype FundingStatus =
    APPROVED | DOCUMENT_COLLECTION | VERIFICATION | COMPLIANCE_REVIEW
  | EXCEPTION_HANDLING | READY_TO_FUND | FUNDED | SUSPENDED

fun document_status_value :: "DocumentStatus \<Rightarrow> string" where
  "document_status_value PENDING = ''pending''"
| "document_status_value RECEIVED = ''received''"
| "document_status_value VERIFIED = ''verified''"
| "document_status_value REJECTED = ''rejected''"
| "document_status_value EXPIRED = ''expired''"

fun funding_status_value :: "FundingStatus \<Rightarrow> string" where
  "funding_status_value APPROVED = ''approved''"
| "funding_status_value DOCUMENT_COLLECTION = ''document_collection''"
| "funding_status_value VERIFICATION = ''verification''"
| "funding_status_value COMPLIANCE_REVIEW = ''compliance_review''"
| "funding_status_value EXCEPTION_HANDLING = ''exception_handling''"
| "funding_status_value READY_TO_FUND = ''ready_to_fund''"
| "funding_status_value FUNDED = ''funded''"
| "funding_status_value SUSPENDED = ''suspended''"

text \<open>\<^verbatim>\<open>DocumentStatus(v)\<close> and \<^verbatim>\<open>FundingStatus(v)\<close>: the member with that value, else
  ValueError.\<close>

definition DocumentStatus_of :: "json \<Rightarrow> py_error + DocumentStatus" where
  "DocumentStatus_of v =
     (case v of
        JStr s \<Rightarrow>
          (case find (\<lambda>m. document_status_value m = s)
                  [PENDING, RECEIVED, VERIFIED, REJECTED, EXPIRED] of
             None \<Rightarrow> Inl ValueError
           | Some m \<Rightarrow> Inr m)
      | _ \<Rightarrow> Inl ValueError)"

definition FundingStatus_of :: "json \<Rightarrow> py_error + FundingStatus" where
  "FundingStatus_of v =
     (case v of
        JStr s \<Rightarrow>
          (case find (\<lambda>m. funding_status_value m = s)
                  [APPROVED, DOCUMENT_COLLECTION, VERIFICATION, COMPLIANCE_REVIEW,
                   EXCEPTION_HANDLING, READY_TO_FUND, FUNDED, SUSPENDED] of
             None \<Rightarrow> Inl ValueError
           | Some m \<Rightarrow> Inr m)
      | _ \<Rightarrow> Inl ValueError)"

record Document =
  d_name :: json
  d_status :: DocumentStatus
  d_received_date :: json
  d_verified_date :: json
  d_verified_by :: json
  d_rejection_reason :: json
  d_expiration_date :: json
  d_notes :: json

record ComplianceCheck =
  c_check_name :: json
  c_passed :: json
  c_checked_date :: json
  c_checked_by :: json
  c_findings :: json
  c_requires_override :: json

record LoanException =
  e_exception_id :: json
  e_category :: json
  e_description :: json
  e_severity :: json
  e_created_date :: json
  e_resolved_date :: json
  e_resolution :: json
  e_assigned_to :: json

record LoanFile =
  lf_loan_id :: json
  lf_borrower_name :: json
  lf_borrower_email :: json
  lf_borrower_phone :: json
  lf_loan_type :: json
  lf_loan_amount :: json
  lf_interest_rate :: json
  lf_term_months :: json
  lf_approval_date :: json
  lf_approval_conditions :: json
  lf_underwriter :: json
  lf_funding_status :: FundingStatus
  lf_target_funding_date :: json
  lf_actual_funding_date :: json
  lf_documents :: "(string \<times> Document) list"
  lf_compliance_checks :: "(string \<times> ComplianceCheck) list"
  lf_exceptions :: "LoanException list"
  lf_communications :: json
  lf_funding_amount :: json
  lf_funding_method :: json
  lf_disbursement_account :: json

subsection \<open>\<^verbatim>\<open>LoanFile.to_dict\<close>\<close>

definition document_to_dict :: "Document \<Rightarrow> json" where
  "document_to_dict v =
     JObj [(''name'', d_name v),
           (''status'', JStr (document_status_value (d_status v))),
           (''received_date'', d_received_date v),
           (''verified_date'', d_verified_date v)]"

definition check_to_dict :: "ComplianceCheck \<Rightarrow> json" where
  "check_to_dict v =
     JObj [(''check_name'', c_check_name v),
           (''passed'', c_passed v),
           (''findings'', c_findings v)]"

definition exception_to_dict :: "LoanException \<Rightarrow> json" where
  "exception_to_dict e =
     JObj [(''id'', e_exception_id e),
           (''category'', e_category e),
           (''description'', e_description e),
           (''severity'', e_severity e),
           (''resolved'', JBool (e_resolved_date e \<noteq> JNull))]"

definition to_dict :: "LoanFile \<Rightarrow> json" where
  "to_dict self =
     JObj [(''loan_id'', lf_loan_id self),
           (''borrower_name'', lf_borrower_name self),
           (''borrower_email'', lf_borrower_email self),
           (''borrower_phone'', lf_borrower_phone self),
           (''loan_type'', lf_loan_type self),
           (''loan_amount'', lf_loan_amount self),
           (''interest_rate'', lf_interest_rate self),
           (''term_months'', lf_term_months self),
           (''approval_date'', lf_approval_date self),
           (''approval_conditions'', lf_approval_conditions self),
           (''underwriter'', lf_underwriter self),
           (''funding_status'', JStr (funding_status_value (lf_funding_status self))),
           (''target_funding_date'', lf_target_funding_date self),
           (''actual_funding_date'', lf_actual_funding_date self),
           (''documents'',
              JObj (map (\<lambda>kv. (fst kv, document_to_dict (snd kv))) (lf_documents self))),
           (''compliance_checks'',
              JObj (map (\<lambda>kv. (fst kv, check_to_dict (snd kv))) (lf_compliance_checks self))),
           (''exceptions'', JArr (map exception_to_dict (lf_exceptions self))),
           (''communications'', lf_communications self)]"

subsection \<open>\<^verbatim>\<open>LoanFile.from_json\<close>, from the decoded content of the file\<close>

definition bind_err :: "py_error + 'a \<Rightarrow> ('a \<Rightarrow> py_error + 'b) \<Rightarrow> py_error + 'b" where
  "bind_err m f = (case m of Inl e \<Rightarrow> Inl e | Inr x \<Rightarrow> f x)"

text \<open>\<^verbatim>\<open>v.get\<close> and \<^verbatim>\<open>v.items()\<close> exist on a dictionary only; \<^verbatim>\<open>data[k]\<close> raises
  KeyError on an absent key.\<close>

definition as_dict :: "json \<Rightarrow> py_error + dict" where
  "as_dict v = (case v of JObj kvs \<Rightarrow> Inr kvs | _ \<Rightarrow> Inl AttributeError)"

definition subscript :: "dict \<Rightarrow> string \<Rightarrow> py_error + json" where
  "subscript d k = (case map_of d k of None \<Rightarrow> Inl KeyError | Some v \<Rightarrow> Inr v)"

definition parse_document :: "string \<Rightarrow> json \<Rightarrow> py_error + Document" where
  "parse_document doc_name doc_data =
     bind_err (as_dict doc_data) (\<lambda>d.
     bind_err (DocumentStatus_of (dict_get d ''status'' (JStr ''pending''))) (\<lambda>st.
       Inr \<lparr>d_name = dict_get d ''name'' (JStr doc_name),
            d_status = st,
            d_received_date = dict_get d ''received_date'' JNull,
            d_verified_date = dict_get d ''verified_date'' JNull,
            d_verified_by = JNull,
            d_rejection_reason = JNull,
            d_expiration_date = JNull,
            d_notes = JNull\<rparr>))"

fun parse_documents :: "dict \<Rightarrow> py_error + (string \<times> Document) list" where
  "parse_documents [] = Inr []"
| "parse_documents ((doc_name, doc_data) # rest) =
     bind_err (parse_document doc_name doc_data) (\<lambda>doc.
     bind_err (parse_documents rest) (\<lambda>docs. Inr ((doc_name, doc) # docs)))"

definition parse_check :: "string \<Rightarrow> json \<Rightarrow> py_error + ComplianceCheck" where
  "parse_check name check_data =
     bind_err (as_dict check_data) (\<lambda>d.
       Inr \<lparr>c_check_name = dict_get d ''check_name'' (JStr name),
            c_passed = dict_get d ''passed'' JNull,
            c_checked_date = JNull,
            c_checked_by = JNull,
            c_findings = dict_get d ''findings'' JNull,
            c_requires_override = JBool False\<rparr>)"

fun parse_checks :: "dict \<Rightarrow> py_error + (string \<times> ComplianceCheck) list" where
  "parse_checks [] = Inr []"
| "parse_checks ((name, check_data) # rest) =
     bind_err (parse_check name check_data) (\<lambda>c.
     bind_err (parse_checks rest) (\<lambda>cs. Inr ((name, c) # cs)))"

definition parse_exception :: "json \<Rightarrow> py_error + LoanException" where
  "parse_exception exc_data =
     bind_err (as_dict exc_data) (\<lambda>d.
       Inr \<lparr>e_exception_id = dict_get d ''id'' (JStr ''''),
            e_category = dict_get d ''category'' (JStr ''''),
            e_description = dict_get d ''description'' (JStr ''''),
            e_severity = dict_get d ''severity'' (JStr ''medium''),
            e_created_date = dict_get d ''created_date'' (JStr ''''),
            e_resolved_date = dict_get d ''resolved_date'' JNull,
            e_resolution = dict_get d ''resolution'' JNull,
            e_assigned_to = JNull\<rparr>)"

fun parse_exceptions :: "json list \<Rightarrow> py_error + LoanException list" where
  "parse_exceptions [] = Inr []"
| "parse_exceptions (exc_data # rest) =
     bind_err (parse_exception exc_data) (\<lambda>e.
     bind_err (parse_exceptions rest) (\<lambda>es. Inr (e # es)))"

definition from_json :: "json \<Rightarrow> py_error + LoanFile" where
  "from_json content =
     bind_err (as_dict content) (\<lambda>data.
     bind_err (as_dict (dict_get data ''documents'' (JObj []))) (\<lambda>docs_data.
     bind_err (parse_documents docs_data) (\<lambda>documents.
     bind_err (as_dict (dict_get data ''compliance_checks'' (JObj []))) (\<lambda>checks_data.
     bind_err (parse_checks checks_data) (\<lambda>compliance_checks.
     bind_err (iterate (dict_get data ''exceptions'' (JArr []))) (\<lambda>excs_data.
     bind_err (parse_exceptions excs_data) (\<lambda>exceptions.
     bind_err (subscript data ''loan_id'') (\<lambda>loan_id.
     bind_err (subscript data ''borrower_name'') (\<lambda>borrower_name.
     bind_err (subscript data ''borrower_email'') (\<lambda>borrower_email.
     bind_err (subscript data ''loan_type'') (\<lambda>loan_type.
     bind_err (subscript data ''loan_amount'') (\<lambda>loan_amount.
     bind_err (subscript data ''interest_rate'') (\<lambda>interest_rate.
     bind_err (subscript data ''term_months'') (\<lambda>term_months.
     bind_err (subscript data ''approval_date'') (\<lambda>approval_date.
     bind_err (FundingStatus_of (dict_get data ''funding_status'' (JStr ''approved'')))
       (\<lambda>funding_status.
       Inr \<lparr>lf_loan_id = loan_id,
            lf_borrower_name = borrower_name,
            lf_borrower_email = borrower_email,
            lf_borrower_phone = dict_get data ''borrower_phone'' (JStr ''''),
            lf_loan_type = loan_type,
            lf_loan_amount = loan_amount,
            lf_interest_rate = interest_rate,
            lf_term_months = term_months,
            lf_approval_date = approval_date,
            lf_approval_conditions = dict_get data ''approval_conditions'' (JArr []),
            lf_underwriter = dict_get data ''underwriter'' (JStr ''''),
            lf_funding_status = funding_status,
            lf_target_funding_date = dict_get data ''target_funding_date'' JNull,
            lf_actual_funding_date = JNull,
            lf_documents = documents,
            lf_compliance_checks = compliance_checks,
            lf_exceptions = exceptions,
            lf_communications = dict_get data ''communications'' (JArr []),
            lf_funding_amount = JNull,
            lf_funding_method = JNull,
            lf_disbursement_account = JNull\<rparr>))))))))))))))))"

text \<open>What a reload keeps of a document, a check, an exception and a loan file.\<close>

definition reloaded_document :: "Document \<Rightarrow> Document" where
  "reloaded_document v =
     v\<lparr>d_verified_by := JNull, d_rejection_reason := JNull, d_expiration_date := JNull,
       d_notes := JNull\<rparr>"

definition reloaded_check :: "ComplianceCheck \<Rightarrow> ComplianceCheck" where
  "reloaded_check v =
     v\<lparr>c_checked_date := JNull, c_checked_by := JNull, c_requires_override := JBool False\<rparr>"

definition reloaded_exception :: "LoanException \<Rightarrow> LoanException" where
  "reloaded_exception e =
     e\<lparr>e_created_date := JStr '''', e_resolved_date := JNull, e_resolution := JNull,
       e_assigned_to := JNull\<rparr>"

definition reloaded :: "LoanFile \<Rightarrow> LoanFile" where
  "reloaded self =
     self\<lparr>lf_actual_funding_date := JNull,
          lf_documents := map (\<lambda>kv. (fst kv, reloaded_document (snd kv))) (lf_documents self),
          lf_compliance_checks :=
            map (\<lambda>kv. (fst kv, reloaded_check (snd kv))) (lf_compliance_checks self),
          lf_exceptions := map reloaded_exception (lf_exceptions self),
          lf_funding_amount := JNull,
          lf_funding_method := JNull,
          lf_disbursement_account := JNull\<rparr>"

text \<open>A loan file with one document, one check and one resolved exception.\<close>

definition sample_loan :: LoanFile where
  "sample_loan =
     \<lparr>lf_loan_id = JStr ''LN-1'',
      lf_borrower_name = JStr ''Ada'',
      lf_borrower_email = JStr ''ada@example.com'',
      lf_borrower_phone = JStr ''555-0100'',
      lf_loan_type = JStr ''personal'',
      lf_loan_amount = JInt 100000,
      lf_interest_rate = JFloat 6,
      lf_term_months = JInt 60,
      lf_approval_date = JStr ''2024-01-10'',
      lf_approval_conditions = JArr [],
      lf_underwriter = JStr ''U1'',
      lf_funding_status = VERIFICATION,
      lf_target_funding_date = JStr ''2024-02-01'',
      lf_actual_funding_date = JNull,
      lf_documents =
        [(''proof_of_income'',
          \<lparr>d_name = JStr ''proof_of_income'', d_status = VERIFIED,
           d_received_date = JStr ''2024-01-11'', d_verified_date = JStr ''2024-01-12'',
           d_verified_by = JStr ''V1'', d_rejection_reason = JNull,
           d_expiration_date = JNull, d_notes = JNull\<rparr>)],
      lf_compliance_checks =
        [(''know_your_customer'',
          \<lparr>c_check_name = JStr ''know_your_customer'', c_passed = JBool True,
           c_checked_date = JStr ''2024-01-13'', c_checked_by = JNull, c_findings = JNull,
           c_requires_override = JBool False\<rparr>)],
      lf_exceptions =
        [\<lparr>e_exception_id = JStr ''EX-1'', e_category = JStr ''document'',
          e_description = JStr ''late'', e_severity = JStr ''low'',
          e_created_date = JStr ''2024-01-15'', e_resolved_date = JStr ''2024-01-20'',
          e_resolution = JStr ''received'', e_assigned_to = JNull\<rparr>],
      lf_communications = JArr [],
      lf_funding_amount = JNull,
      lf_funding_method = JNull,
      lf_disbursement_account = JNull\<rparr>"

section \<open>FundingCalculatorTool\<close>

text \<open>
  Python's numbers and their arithmetic are not modelled. The tool computes with
  integers and binary floating-point numbers, every operation rounds its result, and
  the built-in \<^verbatim>\<open>sum\<close> and \<^verbatim>\<open>round\<close> have algorithms of their own; so the type \<open>'n\<close>
  of numbers and the operations on it are arguments of the model, and the model fixes
  only which operations the tool applies, to which operands and in which order.
  \<open>py_int\<close> and \<open>py_float\<close> are the integer and the float that a literal denotes,
  \<open>py_mul\<close>, \<open>py_truediv\<close> and \<open>py_sub\<close> are \<^verbatim>\<open>*\<close>, \<^verbatim>\<open>/\<close> and \<^verbatim>\<open>-\<close>
  (a subtraction that mixes a float with a large integer can raise), \<open>py_sum\<close> is
  \<^verbatim>\<open>sum\<close> over the values of the fee dictionary, \<open>py_round\<close> is \<^verbatim>\<open>round(_, 2)\<close> and
  \<open>py_gt\<close> is \<^verbatim>\<open>>\<close>.
\<close>

text \<open>A value of the fee dictionary: a number the tool computed, or a value as written
  (a constant of the schedule, or an override taken from the decoded \<^verbatim>\<open>fees\<close>).\<close>

datatype 'n fee_value = Computed 'n | Given json

record 'n arithmetic =
  py_int :: "int \<Rightarrow> 'n"
  py_float :: "rat \<Rightarrow> 'n"
  py_mul :: "'n \<Rightarrow> 'n \<Rightarrow> 'n"
  py_truediv :: "'n \<Rightarrow> 'n \<Rightarrow> 'n"
  py_sub :: "'n \<Rightarrow> 'n \<Rightarrow> py_error + 'n"
  py_sum :: "'n fee_value list \<Rightarrow> py_error + 'n"
  py_round :: "'n \<Rightarrow> py_error + 'n"
  py_gt :: "'n \<Rightarrow> 'n \<Rightarrow> bool"

definition personal_fees :: "'n arithmetic \<Rightarrow> 'n \<Rightarrow> (string \<times> 'n fee_value) list" where
  "personal_fees ar loan_amount =
     [(''origination_fee'', Computed (py_mul ar loan_amount (py_float ar (2 / 100)))),
      (''processing_fee'', Given (JInt 100))]"

definition standard_fees ::
  "'n arithmetic \<Rightarrow> 'n \<Rightarrow> (string \<times> (string \<times> 'n fee_value) list) list" where
  "standard_fees ar loan_amount =
     [(''mortgage'',
         [(''origination_fee'', Computed (py_mul ar loan_amount (py_float ar (1 / 100)))),
          (''appraisal_fee'', Given (JInt 500)),
          (''title_insurance'', Given (JInt 1200)),
          (''recording_fee'', Given (JInt 150))]),
      (''personal'', personal_fees ar loan_amount),
      (''auto'',
         [(''origination_fee'', Computed (py_mul ar loan_amount (py_float ar (15 / 1000)))),
          (''documentation_fee'', Given (JInt 75))]),
      (''business'',
         [(''origination_fee'', Computed (py_mul ar loan_amount (py_float ar (2 / 100)))),
          (''documentation_fee'', Given (JInt 500)),
          (''ucc_filing_fee'', Given (JInt 200))])]"

text \<open>
  \<^verbatim>\<open>applicable_fees = standard_fees.get(loan_type, standard_fees["personal"])\<close>, then
  \<^verbatim>\<open>applicable_fees.update(fee_data)\<close>: an override replaces the value of its key in
  place, a new key goes to the end.
\<close>

definition applicable_fees ::
  "'n arithmetic \<Rightarrow> 'n \<Rightarrow> string \<Rightarrow> dict \<Rightarrow> (string \<times> 'n fee_value) list" where
  "applicable_fees ar loan_amount loan_type fee_data =
     foldl (\<lambda>d kv. dict_set d (fst kv) (Given (snd kv)))
       (case map_of (standard_fees ar loan_amount) loan_type of
          None \<Rightarrow> personal_fees ar loan_amount
        | Some fs \<Rightarrow> fs)
       fee_data"

record 'n funding_result =
  fr_loan_amount :: 'n
  fr_interest_rate :: 'n
  fr_loan_type :: string
  fee_breakdown :: "(string \<times> 'n fee_value) list"
  fr_total_fees :: 'n
  fr_prepaid_interest :: 'n
  net_disbursement :: 'n
  fr_funding_method :: string
  estimated_funding_date :: int

text \<open>The estimated funding date is the day two days after the clock's, as its ordinal.\<close>

definition FundingCalculator_run ::
  "'n arithmetic \<Rightarrow> (nat \<Rightarrow> datetime) \<Rightarrow> 'n \<Rightarrow> 'n \<Rightarrow> string \<Rightarrow> dict
     \<Rightarrow> py_error + 'n funding_result" where
  "FundingCalculator_run ar clock loan_amount interest_rate loan_type fee_data =
     (let fees = applicable_fees ar loan_amount loan_type fee_data in
      bind_err (py_sum ar (map snd fees)) (\<lambda>total_fees.
      bind_err (py_sub ar loan_amount total_fees) (\<lambda>net_disbursement.
        (let daily_interest =
               py_truediv ar
                 (py_mul ar loan_amount (py_truediv ar interest_rate (py_int ar 100)))
                 (py_int ar 365);
             prepaid_days = py_int ar 15;
             prepaid_interest = py_mul ar daily_interest prepaid_days
         in bind_err (py_round ar total_fees) (\<lambda>rounded_fees.
            bind_err (py_round ar prepaid_interest) (\<lambda>rounded_interest.
            bind_err (py_sub ar net_disbursement prepaid_interest) (\<lambda>net.
            bind_err (py_round ar net) (\<lambda>rounded_net.
              Inr \<lparr>fr_loan_amount = loan_amount,
                   fr_interest_rate = interest_rate,
                   fr_loan_type = loan_type,
                   fee_breakdown = fees,
                   fr_total_fees = rounded_fees,
                   fr_prepaid_interest = rounded_interest,
                   net_disbursement = rounded_net,
                   fr_funding_method =
                     (if py_gt ar loan_amount (py_int ar 50000) then ''wire'' else ''ach''),
                   estimated_funding_date = ordinal (clock 0) + 2\<rparr>))))))))"

section \<open>Two runs of the stage tools\<close>

text \<open>
  Two runs on the same input differ in what the clock returns. The document checker
  and the exception analyzer do not read the clock. The outputs of the other four
  carry timestamps, which the following functions overwrite with a fixed value.
\<close>

definition normalize_verifier :: "verifier_result \<Rightarrow> verifier_result" where
  "normalize_verifier r = r\<lparr>verification_date := midnight 0\<rparr>"

definition normalize_compliance :: "compliance_result \<Rightarrow> compliance_result" where
  "normalize_compliance r =
     r\<lparr>results := map (\<lambda>kv. (fst kv, (snd kv)\<lparr>checked_date := midnight 0\<rparr>)) (results r)\<rparr>"

definition normalize_funding :: "'n funding_result \<Rightarrow> 'n funding_result" where
  "normalize_funding r = r\<lparr>estimated_funding_date := 0\<rparr>"

definition normalize_communication :: "communication \<Rightarrow> communication" where
  "normalize_communication r = r\<lparr>drafted_at := midnight 0\<rparr>"

text \<open>Whether the freshness block finds the document older than 90 days.\<close>

definition expiry_verdict ::
  "(string \<Rightarrow> int option) \<Rightarrow> (nat \<Rightarrow> datetime) \<Rightarrow> string \<Rightarrow> dict \<Rightarrow> bool" where
  "expiry_verdict strptime clock document_name data =
     (if document_name \<in> set date_sensitive then
        (case dict_get data ''document_date'' JNull of
           JStr s \<Rightarrow>
             (case strptime s of
                None \<Rightarrow> False
              | Some d \<Rightarrow> timedelta_days (clock 0) (midnight d) > 90)
         | _ \<Rightarrow> False)
      else False)"

text \<open>Two clocks on the same day, and one a day later.\<close>

definition morning_after :: "int \<Rightarrow> nat \<Rightarrow> datetime" where
  "morning_after days i = \<lparr>ordinal = 738886 + days, micros = 32400000000 + i\<rparr>"

section \<open>DocumentCheckerTool: the audit report\<close>

lemma classify_Inr:
  assumes "classify received doc acc = Inr acc'"
  shows "missing acc' = missing acc @ filter (is_missing received) [doc]"
    and "expired acc' = expired acc @ filter (is_expired received) [doc]"
    and "pending_verification acc' =
           pending_verification acc @ filter (is_received received) [doc]"
  using assms
  by (auto simp: classify_def is_missing_def is_expired_def is_received_def status_of_def
           split: option.splits json.splits if_splits)

lemma check_loop_Inr:
  "check_loop received docs acc = Inr acc' \<Longrightarrow>
     missing acc' = missing acc @ filter (is_missing received) docs \<and>
     expired acc' = expired acc @ filter (is_expired received) docs \<and>
     pending_verification acc' =
       pending_verification acc @ filter (is_received received) docs"
proof (induction docs arbitrary: acc)
  case Nil
  then show ?case by simp
next
  case (Cons doc docs)
  from Cons.prems obtain mid where
    c: "classify received doc acc = Inr mid" and l: "check_loop received docs mid = Inr acc'"
    by (auto split: sum.splits)
  from Cons.IH [OF l] classify_Inr [OF c] show ?case by simp
qed

lemma classify_total:
  "(\<exists>acc'. classify received doc acc = Inr acc') = entries_are_objects received [doc]"
  by (auto simp: classify_def entries_are_objects_def split: option.splits json.splits)

lemma check_loop_total:
  "(\<exists>acc'. check_loop received docs acc = Inr acc') = entries_are_objects received docs"
proof (induction docs arbitrary: acc)
  case Nil
  then show ?case by (simp add: entries_are_objects_def)
next
  case (Cons doc docs)
  have split: "entries_are_objects received (doc # docs) =
      (entries_are_objects received [doc] \<and> entries_are_objects received docs)"
    by (simp add: entries_are_objects_def)
  show ?case
  proof (cases "classify received doc acc")
    case (Inl e)
    with classify_total [of received doc acc] show ?thesis by (simp add: split)
  next
    case (Inr mid)
    with classify_total [of received doc acc] Cons.IH [of mid] show ?thesis
      by (simp add: split)
  qed
qed

lemma DocumentChecker_run_Inr:
  assumes "DocumentChecker_run lid lt received = Inr r"
  shows "missing_documents r = filter (is_missing received) (required_documents lt)"
    and "expired_documents r = filter (is_expired received) (required_documents lt)"
    and "cr_pending_verification r = filter (is_received received) (required_documents lt)"
    and "collection_complete r = (missing_documents r = [] \<and> expired_documents r = [])"
    and "action_required r = (\<not> collection_complete r)"
    and "total_required r = length (required_documents lt)"
  using assms 
  by (auto simp: DocumentChecker_run_def Let_def split: sum.splits dest!: check_loop_Inr)

lemma DocumentChecker_run_total:
  "(\<exists>r. DocumentChecker_run lid lt received = Inr r) =
     entries_are_objects received (required_documents lt)"
  using check_loop_total [of received "required_documents lt"
          "\<lparr>missing = [], expired = [], pending_verification = []\<rparr>"]
  by (auto simp: DocumentChecker_run_def Let_def split: sum.splits)

lemma classes_disjoint:
  "\<not> (is_missing received d \<and> is_expired received d)"
  "\<not> (is_missing received d \<and> is_received received d)"
  "\<not> (is_expired received d \<and> is_received received d)"
  unfolding is_missing_def is_expired_def is_received_def
  by (cases "map_of received d"; simp add: status_of_def)+

lemma unlisted_iff:
  "is_unlisted received d =
     (\<not> is_missing received d \<and> \<not> is_expired received d \<and> \<not> is_received received d)"
  unfolding is_unlisted_def is_missing_def is_expired_def is_received_def by simp

lemma status_tag_cases:
  assumes "s \<in> set status_tags"
  obtains "s = ''pending''" | "s = ''received''" | "s = ''verified''"
        | "s = ''rejected''" | "s = ''expired''"
  using assms unfolding status_tags_def by fastforce

lemma well_formed_status:
  assumes "statuses_well_formed received docs" and "d \<in> set docs"
  shows "map_of received d = None \<or>
         (\<exists>s \<in> set status_tags. status_of received d = Some (JStr s))"
proof -
  from assms have wf:
    "map_of received d = None \<or>
       (case status_of received d of
          Some (JStr s) \<Rightarrow> s \<in> set status_tags | _ \<Rightarrow> False)"
    by (simp add: statuses_well_formed_def list_all_iff)
  show ?thesis
  proof (cases "status_of received d")
    case None
    with wf show ?thesis by simp
  next
    case (Some v)
    with wf show ?thesis by (cases v) simp_all
  qed
qed

lemma well_formed_unlisted:
  assumes "statuses_well_formed received docs" and "d \<in> set docs"
  shows "is_unlisted received d = is_verified_or_rejected received d"
proof -
  from well_formed_status [OF assms] show ?thesis
  proof
    assume "map_of received d = None"
    then show ?thesis
      by (simp add: is_unlisted_def is_verified_or_rejected_def status_of_def)
  next
    assume "\<exists>s \<in> set status_tags. status_of received d = Some (JStr s)"
    then obtain s where s: "s \<in> set status_tags" and st: "status_of received d = Some (JStr s)"
      by blast
    from st have present: "map_of received d \<noteq> None"
      by (cases "map_of received d") (simp_all add: status_of_def)
    from s show ?thesis
      by (cases rule: status_tag_cases)
         (simp_all add: is_unlisted_def is_verified_or_rejected_def st present)
  qed
qed

text \<open>
  Claim C1, as the code has it. Each required name goes to the list of its status
  (absent or pending: missing; expired: expired; received: pending verification), the
  three lists are pairwise disjoint, and \<open>collection_complete\<close> holds iff missing and
  expired are both empty. The required names on none of the lists are those present
  with any other status; they are exactly the verified or rejected ones when every
  status present is one of the five tags of \<^verbatim>\<open>DocumentStatus\<close>. The run returns
  whenever every entry it reads is an object.
\<close>

theorem DocumentChecker_classification:
  "(entries_are_objects received (required_documents loan_type) \<longrightarrow>
      (\<exists>r. DocumentChecker_run loan_id loan_type received = Inr r)) \<and>
   (\<forall>r. DocumentChecker_run loan_id loan_type received = Inr r \<longrightarrow>
      missing_documents r = filter (is_missing received) (required_documents loan_type) \<and>
      expired_documents r = filter (is_expired received) (required_documents loan_type) \<and>
      cr_pending_verification r =
        filter (is_received received) (required_documents loan_type) \<and>
      set (missing_documents r) \<inter> set (expired_documents r) = {} \<and>
      set (missing_documents r) \<inter> set (cr_pending_verification r) = {} \<and>
      set (expired_documents r) \<inter> set (cr_pending_verification r) = {} \<and>
      set (required_documents loan_type) -
        (set (missing_documents r) \<union> set (expired_documents r) \<union>
         set (cr_pending_verification r)) =
        set (filter (is_unlisted received) (required_documents loan_type)) \<and>
      (statuses_well_formed received (required_documents loan_type) \<longrightarrow>
         set (required_documents loan_type) -
           (set (missing_documents r) \<union> set (expired_documents r) \<union>
            set (cr_pending_verification r)) =
           set (filter (is_verified_or_rejected received) (required_documents loan_type))) \<and>
      collection_complete r = (missing_documents r = [] \<and> expired_documents r = []))"
proof (intro conjI allI impI)
  assume "entries_are_objects received (required_documents loan_type)"
  then show "\<exists>r. DocumentChecker_run loan_id loan_type received = Inr r"
    by (simp add: DocumentChecker_run_total)
next
  fix r
  assume run: "DocumentChecker_run loan_id loan_type received = Inr r"
  note lists = DocumentChecker_run_Inr(1-3) [OF run]
  show "missing_documents r = filter (is_missing received) (required_documents loan_type)"
    by (rule lists(1))
  show "expired_documents r = filter (is_expired received) (required_documents loan_type)"
    by (rule lists(2))
  show "cr_pending_verification r =
          filter (is_received received) (required_documents loan_type)"
    by (rule lists(3))
  show "set (missing_documents r) \<inter> set (expired_documents r) = {}"
    using classes_disjoint(1) [of received] by (auto simp: lists)
  show "set (missing_documents r) \<inter> set (cr_pending_verification r) = {}"
    using classes_disjoint(2) [of received] by (auto simp: lists)
  show "set (expired_documents r) \<inter> set (cr_pending_verification r) = {}"
    using classes_disjoint(3) [of received] by (auto simp: lists)
  show compl: "set (required_documents loan_type) -
        (set (missing_documents r) \<union> set (expired_documents r) \<union>
         set (cr_pending_verification r)) =
        set (filter (is_unlisted received) (required_documents loan_type))"
    by (auto simp: lists unlisted_iff)
  show "collection_complete r = (missing_documents r = [] \<and> expired_documents r = [])"
    by (rule DocumentChecker_run_Inr(4) [OF run])
  assume wf: "statuses_well_formed received (required_documents loan_type)"
  show "set (required_documents loan_type) -
           (set (missing_documents r) \<union> set (expired_documents r) \<union>
            set (cr_pending_verification r)) =
           set (filter (is_verified_or_rejected received) (required_documents loan_type))"
    unfolding compl using well_formed_unlisted [OF wf] by auto
qed

lemma required_personal:
  "required_documents ''personal'' =
     [''signed_application'', ''proof_of_income'', ''bank_statements'', ''proof_of_identity'']"
  by (simp add: required_documents_def REQUIRED_DOCUMENTS_def personal_documents_def)

theorem DocumentChecker_classification_witness:
  "entries_are_objects sample_received (required_documents ''personal'') \<and>
   statuses_well_formed sample_received (required_documents ''personal'') \<and>
   (\<exists>r. DocumentChecker_run ''LN-1'' ''personal'' sample_received = Inr r \<and>
        missing_documents r = [''proof_of_identity''] \<and>
        expired_documents r = [''bank_statements''] \<and>
        cr_pending_verification r = [''proof_of_income''] \<and>
        set (required_documents ''personal'') -
          (set (missing_documents r) \<union> set (expired_documents r) \<union>
           set (cr_pending_verification r)) = {''signed_application''} \<and>
        \<not> collection_complete r)"
proof -
  have obj: "entries_are_objects sample_received (required_documents ''personal'')"
    by (simp add: required_personal entries_are_objects_def sample_received_def)
  have wf: "statuses_well_formed sample_received (required_documents ''personal'')"
    by (simp add: required_personal statuses_well_formed_def sample_received_def
          status_tags_def status_of_def)
  note main = DocumentChecker_classification [of sample_received "''personal''" "''LN-1''"]
  from main obj obtain r where
    run: "DocumentChecker_run ''LN-1'' ''personal'' sample_received = Inr r" by blast
  from main run wf have
    m: "missing_documents r = filter (is_missing sample_received) (required_documents ''personal'')"
    and e: "expired_documents r = filter (is_expired sample_received) (required_documents ''personal'')"
    and p: "cr_pending_verification r =
        filter (is_received sample_received) (required_documents ''personal'')"
    and c: "set (required_documents ''personal'') -
           (set (missing_documents r) \<union> set (expired_documents r) \<union>
            set (cr_pending_verification r)) =
           set (filter (is_verified_or_rejected sample_received) (required_documents ''personal''))"
    and cc: "collection_complete r = (missing_documents r = [] \<and> expired_documents r = [])"
    by blast+
  have m': "missing_documents r = [''proof_of_identity'']"
    unfolding m by (simp add: required_personal is_missing_def status_of_def sample_received_def)
  have e': "expired_documents r = [''bank_statements'']"
    unfolding e by (simp add: required_personal is_expired_def status_of_def sample_received_def)
  have p': "cr_pending_verification r = [''proof_of_income'']"
    unfolding p by (simp add: required_personal is_received_def status_of_def sample_received_def)
  have c': "set (required_documents ''personal'') -
           (set (missing_documents r) \<union> set (expired_documents r) \<union>
            set (cr_pending_verification r)) = {''signed_application''}"
    unfolding c
    by (simp add: required_personal is_verified_or_rejected_def status_of_def
          sample_received_def)
  from obj wf run m' e' p' c' cc show ?thesis by simp
qed

text \<open>
  A received document whose status is outside the five tags is on none of the three
  lists although it is neither verified nor rejected.
\<close>

theorem DocumentChecker_complement_counterexample:
  "DocumentChecker_run ''LN-1'' ''personal'' archived_received =
     Inr \<lparr>cr_loan_id = ''LN-1'', cr_loan_type = ''personal'', total_required = 4,
          missing_documents = [''proof_of_income'', ''bank_statements'', ''proof_of_identity''],
          expired_documents = [], cr_pending_verification = [],
          collection_complete = False, sla_hours_remaining = 24, action_required = True\<rparr> \<and>
   ''signed_application'' \<in> set (required_documents ''personal'') \<and>
   status_of archived_received ''signed_application'' = Some (JStr ''archived'') \<and>
   \<not> is_verified_or_rejected archived_received ''signed_application''"
  by (simp add: DocumentChecker_run_def required_personal classify_def archived_received_def
        status_of_def is_verified_or_rejected_def SLA_document_follow_up_def)

text \<open>
  Claim C9. A loan type outside mortgage, personal, auto and business is audited
  against the personal list: the report is the personal one with the loan type echoed.
\<close>

theorem unknown_loan_type_audits_personal:
  assumes "loan_type \<notin> {''mortgage'', ''personal'', ''auto'', ''business''}"
  shows "required_documents loan_type = required_documents ''personal'' \<and>
         required_documents loan_type =
           [''signed_application'', ''proof_of_income'', ''bank_statements'',
            ''proof_of_identity''] \<and>
         DocumentChecker_run loan_id loan_type received =
           map_sum id (\<lambda>r. r\<lparr>cr_loan_type := loan_type\<rparr>)
             (DocumentChecker_run loan_id ''personal'' received)"
proof -
  from assms have req: "required_documents loan_type = required_documents ''personal''"
    by (simp add: required_documents_def REQUIRED_DOCUMENTS_def)
  show ?thesis
    by (simp add: req required_personal DocumentChecker_run_def split: sum.splits)
qed

theorem unknown_loan_type_audits_personal_witness:
  "''student'' \<notin> {''mortgage'', ''personal'', ''auto'', ''business''} \<and>
   required_documents ''student'' =
     [''signed_application'', ''proof_of_income'', ''bank_statements'', ''proof_of_identity''] \<and>
   DocumentChecker_run ''LN-1'' ''student'' [] =
     Inr \<lparr>cr_loan_id = ''LN-1'', cr_loan_type = ''student'', total_required = 4,
          missing_documents = [''signed_application'', ''proof_of_income'',
                               ''bank_statements'', ''proof_of_identity''],
          expired_documents = [], cr_pending_verification = [],
          collection_complete = False, sla_hours_remaining = 24, action_required = True\<rparr>"
proof -
  have h: "''student'' \<notin> {''mortgage'', ''personal'', ''auto'', ''business''}" by simp
  have p: "DocumentChecker_run ''LN-1'' ''personal'' [] =
     Inr \<lparr>cr_loan_id = ''LN-1'', cr_loan_type = ''personal'', total_required = 4,
          missing_documents = [''signed_application'', ''proof_of_income'',
                               ''bank_statements'', ''proof_of_identity''],
          expired_documents = [], cr_pending_verification = [],
          collection_complete = False, sla_hours_remaining = 24, action_required = True\<rparr>"
    by (simp add: DocumentChecker_run_def required_personal classify_def
          SLA_document_follow_up_def)
  from unknown_loan_type_audits_personal [OF h, of "''LN-1''" "[]"] h p
  show ?thesis by (simp add: required_personal)
qed

section \<open>ComplianceValidatorTool\<close>

lemma results_keys:
  "map (fst \<circ> check_entry data clock) (enumerate n cs) = cs"
  by (induction cs arbitrary: n) (simp_all add: check_entry_def)

lemma ComplianceValidator_results:
  "map fst (results (ComplianceValidator_run clock loan_id data)) = COMPLIANCE_CHECKS"
  by (simp add: ComplianceValidator_run_def Let_def results_keys)


lemma failed_list:
  "cv_failed_checks (ComplianceValidator_run clock loan_id data) =
     filter (\<lambda>c. \<not> truthy (fst (run_check data c))) COMPLIANCE_CHECKS"
  by (simp add: ComplianceValidator_run_def Let_def COMPLIANCE_CHECKS_def check_entry_def)

lemma passed_conj:
  "compliance_passed (ComplianceValidator_run clock loan_id data) =
     list_all (\<lambda>c. truthy (fst (run_check data c))) COMPLIANCE_CHECKS"
  by (simp add: ComplianceValidator_run_def Let_def COMPLIANCE_CHECKS_def check_entry_def)

lemma aml_entry:
  "map_of (results (ComplianceValidator_run clock loan_id data)) ''anti_money_laundering'' =
     Some \<lparr>check_name = ''anti_money_laundering'',
           passed = dict_get data ''aml_cleared'' (JBool True),
           findings = (if truthy (dict_get data ''aml_cleared'' (JBool True)) then None
                       else Some ''AML flag detected - requires review''),
           checked_date = clock 0\<rparr>"
  by (simp add: ComplianceValidator_run_def Let_def COMPLIANCE_CHECKS_def check_entry_def
        run_check_def)

lemma compliant_passed:
  assumes "compliant_mortgage data"
  shows "compliance_passed (ComplianceValidator_run clock loan_id data) =
           truthy (dict_get data ''aml_cleared'' (JBool True))"
    and "cv_failed_checks (ComplianceValidator_run clock loan_id data) =
           (if truthy (dict_get data ''aml_cleared'' (JBool True)) then []
            else [''anti_money_laundering''])"
proof -
  have t: "\<And>c. c \<in> set COMPLIANCE_CHECKS \<Longrightarrow> c \<noteq> ''anti_money_laundering'' \<Longrightarrow>
             truthy (fst (run_check data c))"
    using assms
    by (auto simp: compliant_mortgage_def COMPLIANCE_CHECKS_def run_check_def dict_get_def
          py_or_def Let_def)
  have a: "fst (run_check data ''anti_money_laundering'') =
             dict_get data ''aml_cleared'' (JBool True)"
    by (simp add: run_check_def Let_def)
  show "compliance_passed (ComplianceValidator_run clock loan_id data) =
           truthy (dict_get data ''aml_cleared'' (JBool True))"
    unfolding passed_conj using t a
    by (auto simp: list_all_iff COMPLIANCE_CHECKS_def)
  show "cv_failed_checks (ComplianceValidator_run clock loan_id data) =
           (if truthy (dict_get data ''aml_cleared'' (JBool True)) then []
            else [''anti_money_laundering''])"
    unfolding failed_list using t a
    by (simp add: COMPLIANCE_CHECKS_def)
qed

text \<open>
  Claim C2. The validator writes one result per name of \<^verbatim>\<open>COMPLIANCE_CHECKS\<close>, seven in
  all; \<open>compliance_passed\<close> is the conjunction of their truth values, the failed checks
  are the names whose result is false, and the recommendation is CLEARED iff all pass
  (REQUIRES_REMEDIATION otherwise). A fully compliant mortgage input passes with no
  failed check; with \<^verbatim>\<open>aml_cleared\<close> false instead, the only failed check is
  anti_money_laundering, with findings "AML flag detected - requires review".
\<close>

theorem ComplianceValidator_conjunction:
  "map fst (results (ComplianceValidator_run clock loan_id data)) = COMPLIANCE_CHECKS \<and>
   length (results (ComplianceValidator_run clock loan_id data)) = 7 \<and>
   compliance_passed (ComplianceValidator_run clock loan_id data) =
     list_all (\<lambda>kv. truthy (passed (snd kv)))
       (results (ComplianceValidator_run clock loan_id data)) \<and>
   cv_failed_checks (ComplianceValidator_run clock loan_id data) =
     map fst (filter (\<lambda>kv. \<not> truthy (passed (snd kv)))
       (results (ComplianceValidator_run clock loan_id data))) \<and>
   (cv_recommendation (ComplianceValidator_run clock loan_id data) = ''CLEARED'') =
     compliance_passed (ComplianceValidator_run clock loan_id data) \<and>
   (cv_recommendation (ComplianceValidator_run clock loan_id data) = ''REQUIRES_REMEDIATION'') =
     (\<not> compliance_passed (ComplianceValidator_run clock loan_id data)) \<and>
   (compliant_mortgage data \<and> map_of data ''aml_cleared'' = Some (JBool True) \<longrightarrow>
      compliance_passed (ComplianceValidator_run clock loan_id data) \<and>
      cv_failed_checks (ComplianceValidator_run clock loan_id data) = []) \<and>
   (compliant_mortgage data \<and> map_of data ''aml_cleared'' = Some (JBool False) \<longrightarrow>
      \<not> compliance_passed (ComplianceValidator_run clock loan_id data) \<and>
      cv_failed_checks (ComplianceValidator_run clock loan_id data) =
        [''anti_money_laundering''] \<and>
      map_option findings
        (map_of (results (ComplianceValidator_run clock loan_id data))
           ''anti_money_laundering'') =
        Some (Some ''AML flag detected - requires review''))"
proof (intro conjI impI)
  show "map fst (results (ComplianceValidator_run clock loan_id data)) = COMPLIANCE_CHECKS"
    by (rule ComplianceValidator_results)
  show "length (results (ComplianceValidator_run clock loan_id data)) = 7"
    by (simp add: ComplianceValidator_run_def Let_def COMPLIANCE_CHECKS_def)
  show "compliance_passed (ComplianceValidator_run clock loan_id data) =
     list_all (\<lambda>kv. truthy (passed (snd kv)))
       (results (ComplianceValidator_run clock loan_id data))"
    by (simp add: ComplianceValidator_run_def Let_def)
  show "cv_failed_checks (ComplianceValidator_run clock loan_id data) =
     map fst (filter (\<lambda>kv. \<not> truthy (passed (snd kv)))
       (results (ComplianceValidator_run clock loan_id data)))"
    by (simp add: ComplianceValidator_run_def Let_def)
  show "(cv_recommendation (ComplianceValidator_run clock loan_id data) = ''CLEARED'') =
     compliance_passed (ComplianceValidator_run clock loan_id data)"
    by (simp add: ComplianceValidator_run_def Let_def)
  show "(cv_recommendation (ComplianceValidator_run clock loan_id data) =
          ''REQUIRES_REMEDIATION'') =
     (\<not> compliance_passed (ComplianceValidator_run clock loan_id data))"
    by (simp add: ComplianceValidator_run_def Let_def)
next
  assume h: "compliant_mortgage data \<and> map_of data ''aml_cleared'' = Some (JBool True)"
  then have a: "truthy (dict_get data ''aml_cleared'' (JBool True))"
    by (simp add: dict_get_def)
  from h a show "compliance_passed (ComplianceValidator_run clock loan_id data)"
    by (simp add: compliant_passed(1))
  from h a show "cv_failed_checks (ComplianceValidator_run clock loan_id data) = []"
    by (simp add: compliant_passed(2))
next
  assume h: "compliant_mortgage data \<and> map_of data ''aml_cleared'' = Some (JBool False)"
  then have a: "\<not> truthy (dict_get data ''aml_cleared'' (JBool True))"
    by (simp add: dict_get_def)
  from h a show "\<not> compliance_passed (ComplianceValidator_run clock loan_id data)"
    by (simp add: compliant_passed(1))
  from h a show "cv_failed_checks (ComplianceValidator_run clock loan_id data) =
        [''anti_money_laundering'']"
    by (simp add: compliant_passed(2))
  from a show "map_option findings
        (map_of (results (ComplianceValidator_run clock loan_id data))
           ''anti_money_laundering'') =
        Some (Some ''AML flag detected - requires review'')"
    by (simp add: aml_entry)
qed

theorem ComplianceValidator_conjunction_witness:
  "compliant_mortgage (mortgage_data True) \<and>
   map_of (mortgage_data True) ''aml_cleared'' = Some (JBool True) \<and>
   compliance_passed (ComplianceValidator_run (\<lambda>i. midnight 739000) ''LN-1'' (mortgage_data True)) \<and>
   cv_failed_checks (ComplianceValidator_run (\<lambda>i. midnight 739000) ''LN-1'' (mortgage_data True)) = [] \<and>
   compliant_mortgage (mortgage_data False) \<and>
   map_of (mortgage_data False) ''aml_cleared'' = Some (JBool False) \<and>
   \<not> compliance_passed (ComplianceValidator_run (\<lambda>i. midnight 739000) ''LN-1'' (mortgage_data False)) \<and>
   cv_failed_checks (ComplianceValidator_run (\<lambda>i. midnight 739000) ''LN-1'' (mortgage_data False)) =
     [''anti_money_laundering'']"
proof -
  have t: "compliant_mortgage (mortgage_data True) \<and>
           map_of (mortgage_data True) ''aml_cleared'' = Some (JBool True)"
    by (simp add: compliant_mortgage_def mortgage_data_def)
  have f: "compliant_mortgage (mortgage_data False) \<and>
           map_of (mortgage_data False) ''aml_cleared'' = Some (JBool False)"
    by (simp add: compliant_mortgage_def mortgage_data_def)
  from t f
    ComplianceValidator_conjunction [of "\<lambda>i. midnight 739000" "''LN-1''" "mortgage_data True"]
    ComplianceValidator_conjunction [of "\<lambda>i. midnight 739000" "''LN-1''" "mortgage_data False"]
  show ?thesis by blast
qed

section \<open>ExceptionAnalyzerTool\<close>

lemma resolutions_entries_nonempty:
  "\<forall>ct \<in> set resolutions. \<forall>irs \<in> set (snd ct). snd irs \<noteq> []"
  by (simp add: resolutions_def)

lemma resolutions_nonempty:
  assumes "map_of resolutions c = Some t" and "map_of t i = Some rs"
  shows "rs \<noteq> []"
proof -
  from assms(1) have "(c, t) \<in> set resolutions" by (rule map_of_SomeD)
  moreover from assms(2) have "(i, rs) \<in> set t" by (rule map_of_SomeD)
  ultimately show ?thesis using resolutions_entries_nonempty by force
qed

lemma lookup_nonempty:
  assumes "lookup_resolutions etype i = Inr rs"
  shows "rs \<noteq> []"
proof (cases i)
  case (JStr s)
  show ?thesis
  proof (cases "map_of resolutions etype")
    case None
    with JStr assms show ?thesis by (auto simp: lookup_resolutions_def)
  next
    case (Some t)
    show ?thesis
    proof (cases "map_of t s")
      case None
      with JStr Some assms show ?thesis by (auto simp: lookup_resolutions_def)
    next
      case (Some rs')
      with JStr \<open>map_of resolutions etype = Some t\<close> assms have "rs = rs'"
        by (simp add: lookup_resolutions_def)
      with resolutions_nonempty [OF \<open>map_of resolutions etype = Some t\<close> Some]
      show ?thesis by simp
    qed
  qed
qed (use assms in \<open>auto simp: lookup_resolutions_def\<close>)

lemma lookup_total:
  "(\<exists>rs. lookup_resolutions etype i = Inr rs) = (\<forall>xs kvs. i \<noteq> JArr xs \<and> i \<noteq> JObj kvs)"
  by (cases i) (auto simp: lookup_resolutions_def Let_def split: option.splits)

lemma lookup_unknown:
  "\<not> known_issue etype s \<Longrightarrow>
     lookup_resolutions etype (JStr s) = Inr [''Escalate to supervisor'']"
  by (auto simp: known_issue_def lookup_resolutions_def split: option.splits)

lemma graded_issues_known:
  "known_issue ''verification'' ''fraud_flag''"
  "known_issue ''compliance'' ''failed_check''"
  "known_issue ''document'' ''missing''"
  by (simp_all add: known_issue_def resolutions_def)

lemma severity_unknown:
  assumes "\<not> known_issue etype s"
  shows "severity_of etype (JStr s) = ''medium''"
proof -
  from assms graded_issues_known have
    "\<not> (etype = ''verification'' \<and> s = ''fraud_flag'')"
    "\<not> (etype = ''compliance'' \<and> s = ''failed_check'')"
    "\<not> (etype = ''document'' \<and> s = ''missing'')"
    by blast+
  then show ?thesis by (simp add: severity_of_def)
qed

lemma severity_values:
  "severity_of etype i \<in> {''critical'', ''high'', ''low'', ''medium''}"
  by (simp add: severity_of_def)

lemma fraud_flag_resolutions:
  "lookup_resolutions ''verification'' (JStr ''fraud_flag'') =
     Inr [''Escalate immediately'', ''Suspend processing'', ''Notify fraud team'']"
  by (simp add: lookup_resolutions_def resolutions_def)

text \<open>
  Claim C4, as the code has it. For every category and every issue tag the analyzer
  returns; the severity is the fixed lookup (verification and fraud_flag: critical;
  compliance and failed_check: high; document and missing: low; medium otherwise),
  escalation is required iff the severity is high or critical, the SLA is impacted iff
  it is not low, the impact statement is "Blocks funding" for high or critical and
  "May delay funding" otherwise, the resolution list is not empty and its first element
  is the recommended action. For verification and fraud_flag the first action is
  "Escalate immediately"; a tag the table does not have for the category yields
  the single action "Escalate to supervisor" with severity medium.
\<close>

theorem ExceptionAnalyzer_lookup:
  assumes "dict_get details ''issue'' (JStr ''unknown'') = JStr s"
  shows "\<exists>r. ExceptionAnalyzer_run etype details = Inr r \<and>
           severity r =
             (if etype = ''verification'' \<and> s = ''fraud_flag'' then ''critical''
              else if etype = ''compliance'' \<and> s = ''failed_check'' then ''high''
              else if etype = ''document'' \<and> s = ''missing'' then ''low''
              else ''medium'') \<and>
           escalation_required r = (severity r = ''high'' \<or> severity r = ''critical'') \<and>
           sla_impact r = (severity r \<noteq> ''low'') \<and>
           impact_assessment r =
             (if severity r = ''high'' \<or> severity r = ''critical'' then ''Blocks funding''
              else ''May delay funding'') \<and>
           proposed_resolutions r \<noteq> [] \<and>
           recommended_action r = hd (proposed_resolutions r) \<and>
           (etype = ''verification'' \<and> s = ''fraud_flag'' \<longrightarrow>
              severity r = ''critical'' \<and> escalation_required r \<and>
              hd (proposed_resolutions r) = ''Escalate immediately'') \<and>
           (\<not> known_issue etype s \<longrightarrow>
              proposed_resolutions r = [''Escalate to supervisor''] \<and>
              severity r = ''medium'')"
proof -
  from lookup_total [of etype "JStr s"] obtain rs where
    rs: "lookup_resolutions etype (JStr s) = Inr rs" by auto
  have ne: "rs \<noteq> []" using rs by (rule lookup_nonempty)
  define r where "r =
     \<lparr>exception_type = etype, issue = JStr s, severity = severity_of etype (JStr s),
      impact_assessment =
        (if severity_of etype (JStr s) \<in> set [''high'', ''critical''] then ''Blocks funding''
         else ''May delay funding''),
      proposed_resolutions = rs,
      recommended_action = (case rs of [] \<Rightarrow> ''Escalate'' | a # _ \<Rightarrow> a),
      escalation_required = (severity_of etype (JStr s) \<in> set [''high'', ''critical'']),
      sla_impact = (severity_of etype (JStr s) \<noteq> ''low'')\<rparr>"
  have run: "ExceptionAnalyzer_run etype details = Inr r"
    by (simp add: ExceptionAnalyzer_run_def Let_def assms rs r_def)
  have sev: "severity r =
             (if etype = ''verification'' \<and> s = ''fraud_flag'' then ''critical''
              else if etype = ''compliance'' \<and> s = ''failed_check'' then ''high''
              else if etype = ''document'' \<and> s = ''missing'' then ''low''
              else ''medium'')"
    by (simp add: r_def severity_of_def)
  have esc: "escalation_required r = (severity r = ''high'' \<or> severity r = ''critical'')"
    by (simp add: r_def)
  have sla: "sla_impact r = (severity r \<noteq> ''low'')"
    by (simp add: r_def)
  have impact: "impact_assessment r =
             (if severity r = ''high'' \<or> severity r = ''critical'' then ''Blocks funding''
              else ''May delay funding'')"
    by (simp add: r_def)
  have props: "proposed_resolutions r = rs" by (simp add: r_def)
  have recm: "recommended_action r = hd (proposed_resolutions r)"
    using ne by (cases rs) (simp_all add: r_def)
  have fraud: "etype = ''verification'' \<and> s = ''fraud_flag'' \<longrightarrow>
              severity r = ''critical'' \<and> escalation_required r \<and>
              hd (proposed_resolutions r) = ''Escalate immediately''"
  proof
    assume h: "etype = ''verification'' \<and> s = ''fraud_flag''"
    with rs fraud_flag_resolutions have
      "rs = [''Escalate immediately'', ''Suspend processing'', ''Notify fraud team'']"
      by simp
    with h show "severity r = ''critical'' \<and> escalation_required r \<and>
              hd (proposed_resolutions r) = ''Escalate immediately''"
      by (simp add: r_def severity_of_def)
  qed
  have unknown: "\<not> known_issue etype s \<longrightarrow>
              proposed_resolutions r = [''Escalate to supervisor''] \<and>
              severity r = ''medium''"
  proof
    assume h: "\<not> known_issue etype s"
    from lookup_unknown [OF h] rs have "rs = [''Escalate to supervisor'']" by simp
    with severity_unknown [OF h] show
      "proposed_resolutions r = [''Escalate to supervisor''] \<and> severity r = ''medium''"
      by (simp add: r_def)
  qed
  from run sev esc sla impact ne props recm fraud unknown show ?thesis by auto
qed

theorem ExceptionAnalyzer_lookup_witness:
  "dict_get [(''issue'', JStr ''fraud_flag'')] ''issue'' (JStr ''unknown'') = JStr ''fraud_flag'' \<and>
   (\<exists>r. ExceptionAnalyzer_run ''verification'' [(''issue'', JStr ''fraud_flag'')] = Inr r \<and>
        severity r = ''critical'' \<and> escalation_required r \<and>
        hd (proposed_resolutions r) = ''Escalate immediately'') \<and>
   dict_get [] ''issue'' (JStr ''unknown'') = JStr ''unknown'' \<and>
   \<not> known_issue ''document'' ''unknown'' \<and>
   (\<exists>r. ExceptionAnalyzer_run ''document'' [] = Inr r \<and>
        proposed_resolutions r = [''Escalate to supervisor''] \<and> severity r = ''medium'')"
proof -
  have a: "dict_get [(''issue'', JStr ''fraud_flag'')] ''issue'' (JStr ''unknown'') =
             JStr ''fraud_flag''"
    by (simp add: dict_get_def)
  have b: "dict_get [] ''issue'' (JStr ''unknown'') = JStr ''unknown''"
    by (simp add: dict_get_def)
  have c: "\<not> known_issue ''document'' ''unknown''"
    by (simp add: known_issue_def resolutions_def)
  from ExceptionAnalyzer_lookup [OF a, of "''verification''"]
  have 1: "\<exists>r. ExceptionAnalyzer_run ''verification'' [(''issue'', JStr ''fraud_flag'')] = Inr r \<and>
        severity r = ''critical'' \<and> escalation_required r \<and>
        hd (proposed_resolutions r) = ''Escalate immediately''"
    by blast
  from ExceptionAnalyzer_lookup [OF b, of "''document''"] c
  have 2: "\<exists>r. ExceptionAnalyzer_run ''document'' [] = Inr r \<and>
        proposed_resolutions r = [''Escalate to supervisor''] \<and> severity r = ''medium''"
    by blast
  from a b c 1 2 show ?thesis by blast
qed

text \<open>
  The impact statements are capitalised: they are not the strings "blocks funding"
  and "may delay funding".
\<close>

theorem ExceptionAnalyzer_impact_counterexample:
  "map_sum id impact_assessment
     (ExceptionAnalyzer_run ''verification'' [(''issue'', JStr ''fraud_flag'')]) =
     Inr ''Blocks funding'' \<and>
   ''Blocks funding'' \<noteq> ''blocks funding'' \<and>
   map_sum id impact_assessment
     (ExceptionAnalyzer_run ''funding'' [(''issue'', JStr ''wire_error'')]) =
     Inr ''May delay funding'' \<and>
   ''May delay funding'' \<noteq> ''may delay funding''"
  by (simp add: ExceptionAnalyzer_run_def dict_get_def lookup_resolutions_def resolutions_def
        severity_of_def)

section \<open>DocumentVerifierTool\<close>







lemma days_since_midnight:
  assumes "valid_datetime t"
  shows "timedelta_days t (midnight d) = ordinal t - d"
proof -
  have "elapsed_micros t (midnight d) = (ordinal t - d) * micros_per_day + int (micros t)"
    by (simp add: elapsed_micros_def midnight_def)
  moreover have "0 \<le> int (micros t)" "int (micros t) < micros_per_day"
    using assms by (simp_all add: valid_datetime_def)
  moreover have "0 < micros_per_day" by (simp add: micros_per_day_def)
  ultimately show ?thesis
    unfolding timedelta_days_def by (simp add: div_pos_pos_trivial)
qed



lemma sample_run:
  "DocumentVerifier_run sample_strptime (noon_after 91) ''bank_statements''
     [(''document_date'', JStr ''2024-01-01'')] =
   Inr \<lparr>vr_document_name = ''bank_statements'',
        verification_passed = False,
        verification_date = noon_after 91 1,
        checks_performed =
          [(''document_present'', JBool True), (''legible'', JBool True),
           (''complete'', JBool True), (''not_expired'', JBool False),
           (''signatures_valid'', JBool True), (''dates_consistent'', JBool True)],
        vr_failed_checks = [''not_expired''],
        vr_recommendation = ''REQUIRES_ATTENTION'',
        vr_notes = ''Document failed verification: not_expired''\<rparr>"
  by (simp add: DocumentVerifier_run_def expiration_check_def date_sensitive_def
        dict_get_def sample_strptime_def timedelta_days_def elapsed_micros_def midnight_def
        micros_per_day_def noon_after_def initial_checks_def falsy_keys_def)


text \<open>
  Claim C10. A date-sensitive document whose metadata has no \<^verbatim>\<open>document_date\<close> keeps
  \<open>not_expired\<close> true whatever the clock says: the freshness check is never among the
  failed ones, and the document is recommended VERIFIED as soon as its completeness
  and signature flags are true.
\<close>

theorem undated_document_not_expired:
  assumes "name \<in> set date_sensitive" and "map_of data ''document_date'' = None"
  shows "\<exists>r. DocumentVerifier_run strptime clock name data = Inr r \<and>
           map_of (checks_performed r) ''not_expired'' = Some (JBool True) \<and>
           ''not_expired'' \<notin> set (vr_failed_checks r) \<and>
           verification_passed r =
             (truthy (dict_get data ''pages_complete'' (JBool True)) \<and>
              truthy (dict_get data ''signed'' (JBool True))) \<and>
           (vr_recommendation r = ''VERIFIED'') = verification_passed r"
proof -
  from assms have dd: "dict_get data ''document_date'' JNull = JNull"
    by (simp add: dict_get_def)
  with assms have
    "expiration_check strptime clock name data (initial_checks data) =
       Inr (initial_checks data, 0)"
    by (simp add: expiration_check_def)
  then show ?thesis
    by (simp add: DocumentVerifier_run_def Let_def initial_checks_def falsy_keys_def)
qed

theorem undated_document_not_expired_witness:
  "''proof_of_income'' \<in> set date_sensitive \<and> map_of [] ''document_date'' = (None :: json option) \<and>
   (\<exists>r. DocumentVerifier_run sample_strptime (noon_after 5000) ''proof_of_income'' [] = Inr r \<and>
        map_of (checks_performed r) ''not_expired'' = Some (JBool True) \<and>
        verification_passed r \<and> vr_recommendation r = ''VERIFIED'')"
proof -
  have a: "''proof_of_income'' \<in> set date_sensitive" by (simp add: date_sensitive_def)
  have b: "map_of ([] :: dict) ''document_date'' = None" by simp
  from undated_document_not_expired [OF a b, of sample_strptime "noon_after 5000"] a
  show ?thesis by (auto simp: dict_get_def)
qed

section \<open>CommunicationDrafterTool\<close>

lemma code_points_concat: "concat (code_points s) = s"
  by (induction s rule: code_points.induct) simp_all

lemma iterate_code_points:
  "iterate (JStr ''ab'') = Inr [JStr ''a'', JStr ''b'']"
  "iterate (JStr [CHR 0xC3, CHR 0xA9]) = Inr [JStr [CHR 0xC3, CHR 0xA9]]"
  "iterate (JStr [CHR 0x61, CHR 0xE2, CHR 0x82, CHR 0xAC, CHR 0x62]) =
     Inr [JStr ''a'', JStr [CHR 0xE2, CHR 0x82, CHR 0xAC], JStr ''b'']"
  by (simp_all add: iterate_def utf8_length_def)

lemma templates_Inr:
  "(templates repr fmt2f name ctx = Inr ts) =
     (\<exists>a b. document_request_template name ctx = Inr a \<and>
            funding_notice_template repr fmt2f name ctx = Inr b \<and>
            ts = [(''document_request'', a),
                  (''status_update'', status_update_template repr name ctx),
                  (''funding_notice'', b),
                  (''exception_notice'', exception_notice_template repr name ctx)])"
  unfolding templates_def
  by (cases "document_request_template name ctx";
      cases "funding_notice_template repr fmt2f name ctx") auto

lemma CommunicationDrafter_run_Inr:
  "(CommunicationDrafter_run repr fmt2f clock ctype name ctx = Inr r) =
     (\<exists>ts. templates repr fmt2f name ctx = Inr ts \<and>
        r = \<lparr>communication_type = ctype,
              recipient = name,
              subject = (case map_of (subjects repr ctx) ctype of
                           None \<Rightarrow> ''Loan Update'' | Some s \<Rightarrow> s),
              body = strip (case map_of ts ctype of
                              None \<Rightarrow> status_update_template repr name ctx
                            | Some t \<Rightarrow> t),
              priority =
                (if ctype \<in> set [''document_request'', ''exception_notice'']
                   then ''high'' else ''normal''),
              drafted_at = clock 0\<rparr>)"
  unfolding CommunicationDrafter_run_def Let_def
  by (cases "templates repr fmt2f name ctx") auto

lemma unknown_type_lookups:
  assumes "ctype \<notin> set known_types"
  shows "map_of (subjects repr ctx) ctype = None"
    and "map_of [(''document_request'', a), (''status_update'', b), (''funding_notice'', c),
                 (''exception_notice'', d)] ctype = None"
  using assms by (simp_all add: known_types_def subjects_def)

lemma CommunicationDrafter_run_total:
  "(\<exists>r. CommunicationDrafter_run repr fmt2f clock ctype name ctx = Inr r) =
     (\<exists>a b. document_request_template name ctx = Inr a \<and>
            funding_notice_template repr fmt2f name ctx = Inr b)"
  unfolding CommunicationDrafter_run_Inr templates_Inr by auto

text \<open>
  Claim C6, as the code has it. The drafter formats all four templates before it
  chooses, so it returns iff the document-request and the funding-notice templates can
  be formatted. When it returns, the body is the stripped template of the type and the
  subject the subject line of the type; for a type outside the four the body is the
  status-update template and the subject is the fixed line "Loan Update". The
  priority is high iff the type is document_request or exception_notice, else normal.
\<close>

theorem CommunicationDrafter_selection:
  "((\<exists>r. CommunicationDrafter_run repr fmt2f clock ctype name ctx = Inr r) =
      (\<exists>a b. document_request_template name ctx = Inr a \<and>
             funding_notice_template repr fmt2f name ctx = Inr b)) \<and>
   (\<forall>r. CommunicationDrafter_run repr fmt2f clock ctype name ctx = Inr r \<longrightarrow>
      (ctype = ''document_request'' \<longrightarrow>
         Inr (body r) = map_sum id strip (document_request_template name ctx) \<and>
         subject r = ''Action Required: Documents Needed for Loan #'' @
                       py_str repr (dict_get ctx ''loan_id'' (JStr ''''))) \<and>
      (ctype = ''status_update'' \<longrightarrow>
         body r = strip (status_update_template repr name ctx) \<and>
         subject r = ''Loan Status Update - #'' @
                       py_str repr (dict_get ctx ''loan_id'' (JStr ''''))) \<and>
      (ctype = ''funding_notice'' \<longrightarrow>
         Inr (body r) = map_sum id strip (funding_notice_template repr fmt2f name ctx) \<and>
         subject r = ''Congratulations! Your Loan is Ready for Funding'') \<and>
      (ctype = ''exception_notice'' \<longrightarrow>
         body r = strip (exception_notice_template repr name ctx) \<and>
         subject r = ''Action Required: Issue with Your Loan Application'') \<and>
      (ctype \<notin> set known_types \<longrightarrow>
         body r = strip (status_update_template repr name ctx) \<and>
         subject r = ''Loan Update'') \<and>
      (priority r = ''high'') = (ctype = ''document_request'' \<or> ctype = ''exception_notice'') \<and>
      (priority r = ''normal'') =
        (\<not> (ctype = ''document_request'' \<or> ctype = ''exception_notice'')))"
proof (intro conjI allI impI)
  show "(\<exists>r. CommunicationDrafter_run repr fmt2f clock ctype name ctx = Inr r) =
      (\<exists>a b. document_request_template name ctx = Inr a \<and>
             funding_notice_template repr fmt2f name ctx = Inr b)"
    by (rule CommunicationDrafter_run_total)
next
  fix r
  assume run: "CommunicationDrafter_run repr fmt2f clock ctype name ctx = Inr r"
  then obtain a b where
    a: "document_request_template name ctx = Inr a" and
    b: "funding_notice_template repr fmt2f name ctx = Inr b" and
    r: "r = \<lparr>communication_type = ctype,
              recipient = name,
              subject = (case map_of (subjects repr ctx) ctype of
                           None \<Rightarrow> ''Loan Update'' | Some s \<Rightarrow> s),
              body = strip (case map_of
                  [(''document_request'', a),
                   (''status_update'', status_update_template repr name ctx),
                   (''funding_notice'', b),
                   (''exception_notice'', exception_notice_template repr name ctx)] ctype of
                              None \<Rightarrow> status_update_template repr name ctx
                            | Some t \<Rightarrow> t),
              priority =
                (if ctype \<in> set [''document_request'', ''exception_notice'']
                   then ''high'' else ''normal''),
              drafted_at = clock 0\<rparr>"
    unfolding CommunicationDrafter_run_Inr templates_Inr by blast
  show "(priority r = ''high'') = (ctype = ''document_request'' \<or> ctype = ''exception_notice'')"
    by (simp add: r)
  show "(priority r = ''normal'') =
        (\<not> (ctype = ''document_request'' \<or> ctype = ''exception_notice''))"
    by (simp add: r)
  {
    assume "ctype = ''document_request''"
    then show "Inr (body r) = map_sum id strip (document_request_template name ctx)"
      and "subject r = ''Action Required: Documents Needed for Loan #'' @
                       py_str repr (dict_get ctx ''loan_id'' (JStr ''''))"
      by (simp_all add: r a subjects_def)
  next
    assume "ctype = ''status_update''"
    then show "body r = strip (status_update_template repr name ctx)"
      and "subject r = ''Loan Status Update - #'' @
                       py_str repr (dict_get ctx ''loan_id'' (JStr ''''))"
      by (simp_all add: r subjects_def)
  next
    assume "ctype = ''funding_notice''"
    then show "Inr (body r) = map_sum id strip (funding_notice_template repr fmt2f name ctx)"
      and "subject r = ''Congratulations! Your Loan is Ready for Funding''"
      by (simp_all add: r b subjects_def)
  next
    assume "ctype = ''exception_notice''"
    then show "body r = strip (exception_notice_template repr name ctx)"
      and "subject r = ''Action Required: Issue with Your Loan Application''"
      by (simp_all add: r subjects_def)
  next
    assume "ctype \<notin> set known_types"
    then have u: "ctype \<noteq> ''document_request''" "ctype \<noteq> ''status_update''"
      "ctype \<noteq> ''funding_notice''" "ctype \<noteq> ''exception_notice''"
      by (simp_all add: known_types_def)
    from u show "body r = strip (status_update_template repr name ctx)"
      by (simp add: r)
    from u show "subject r = ''Loan Update''"
      by (simp add: r subjects_def)
  }
qed

lemma document_request_returns:
  assumes "iterate (dict_get ctx ''missing_documents'' (JArr [JStr ''Required document''])) =
             Inr docs"
    and "bullet_lines docs = Inr ls"
  shows "\<exists>a. document_request_template name ctx = Inr a"
  by (simp add: document_request_template_def assms)

lemma funding_notice_returns:
  assumes "fmt2f (dict_get ctx ''loan_amount'' (JInt 0)) = Inr x"
    and "fmt2f (dict_get ctx ''net_disbursement'' (JInt 0)) = Inr y"
  shows "\<exists>b. funding_notice_template repr fmt2f name ctx = Inr b"
  by (simp add: funding_notice_template_def assms)

lemma sample_templates:
  assumes "map_of ctx ''missing_documents'' = None" and "map_of ctx ''loan_amount'' = None"
    and "map_of ctx ''net_disbursement'' = None"
  shows "\<exists>a. document_request_template name ctx = Inr a"
    and "\<exists>b. funding_notice_template repr sample_fmt2f name ctx = Inr b"
proof -
  have "iterate (dict_get ctx ''missing_documents'' (JArr [JStr ''Required document''])) =
          Inr [JStr ''Required document'']"
    by (simp add: dict_get_def iterate_def assms)
  moreover have "bullet_lines [JStr ''Required document''] =
                   Inr [bullet @ ''Required document'']"
    by simp
  ultimately show "\<exists>a. document_request_template name ctx = Inr a"
    by (rule document_request_returns)
  have "sample_fmt2f (dict_get ctx ''loan_amount'' (JInt 0)) = Inr ''0.00''"
       "sample_fmt2f (dict_get ctx ''net_disbursement'' (JInt 0)) = Inr ''0.00''"
    by (simp_all add: dict_get_def sample_fmt2f_def assms)
  then show "\<exists>b. funding_notice_template repr sample_fmt2f name ctx = Inr b"
    by (rule funding_notice_returns)
qed

theorem CommunicationDrafter_selection_witness:
  "''reminder'' \<notin> set known_types \<and>
   (\<exists>r. CommunicationDrafter_run sample_repr sample_fmt2f (noon_after 0) ''reminder''
          ''Ada'' [] = Inr r \<and>
        body r = strip (status_update_template sample_repr ''Ada'' []) \<and>
        subject r = ''Loan Update'' \<and> priority r = ''normal'')"
proof -
  have u: "''reminder'' \<notin> set known_types" by (simp add: known_types_def)
  note sel = CommunicationDrafter_selection
    [of sample_repr sample_fmt2f "noon_after 0" "''reminder''" "''Ada''" "[]"]
  obtain a where a: "document_request_template ''Ada'' [] = Inr a"
    using sample_templates(1) [of "[]" "''Ada''"] by auto
  obtain b where b: "funding_notice_template sample_repr sample_fmt2f ''Ada'' [] = Inr b"
    using sample_templates(2) [of "[]" sample_repr "''Ada''"] by auto
  have "\<exists>r. CommunicationDrafter_run sample_repr sample_fmt2f (noon_after 0) ''reminder''
          ''Ada'' [] = Inr r"
    by (rule iffD2 [OF conjunct1 [OF sel]]) (intro exI conjI, rule a, rule b)
  then obtain r where
    r: "CommunicationDrafter_run sample_repr sample_fmt2f (noon_after 0) ''reminder''
          ''Ada'' [] = Inr r" ..
  note facts = spec [OF conjunct2 [OF sel], THEN mp, OF r]
  from facts u have
    "body r = strip (status_update_template sample_repr ''Ada'' []) \<and>
     subject r = ''Loan Update''"
    by (elim conjE) (erule mp)
  moreover from facts have "priority r = ''normal''"
    by (elim conjE) simp
  ultimately show ?thesis using u r by (intro conjI exI [of _ r]) simp_all
qed

text \<open>
  For an unknown type the subject is not the status-update subject line.
\<close>

theorem CommunicationDrafter_subject_counterexample:
  "map_sum id subject
     (CommunicationDrafter_run sample_repr sample_fmt2f (noon_after 0) ''reminder''
        ''Ada'' [(''loan_id'', JStr ''LN-1'')]) = Inr ''Loan Update'' \<and>
   map_sum id subject
     (CommunicationDrafter_run sample_repr sample_fmt2f (noon_after 0) ''status_update''
        ''Ada'' [(''loan_id'', JStr ''LN-1'')]) = Inr ''Loan Status Update - #LN-1'' \<and>
   ''Loan Update'' \<noteq> ''Loan Status Update - #LN-1''"
proof -
  obtain a b where
    "document_request_template ''Ada'' [(''loan_id'', JStr ''LN-1'')] = Inr a"
    "funding_notice_template sample_repr sample_fmt2f ''Ada'' [(''loan_id'', JStr ''LN-1'')] =
       Inr b"
    using sample_templates(1) [of "[(''loan_id'', JStr ''LN-1'')]" "''Ada''"]
      sample_templates(2) [of "[(''loan_id'', JStr ''LN-1'')]" sample_repr "''Ada''"]
    by auto
  then have "\<exists>ts. templates sample_repr sample_fmt2f ''Ada'' [(''loan_id'', JStr ''LN-1'')] =
               Inr ts"
    unfolding templates_Inr by blast
  then obtain ts where
    ts: "templates sample_repr sample_fmt2f ''Ada'' [(''loan_id'', JStr ''LN-1'')] = Inr ts"
    by blast
  have s: "subjects sample_repr [(''loan_id'', JStr ''LN-1'')] =
     [(''document_request'', ''Action Required: Documents Needed for Loan #LN-1''),
      (''status_update'', ''Loan Status Update - #LN-1''),
      (''funding_notice'', ''Congratulations! Your Loan is Ready for Funding''),
      (''exception_notice'', ''Action Required: Issue with Your Loan Application'')]"
    by (simp add: subjects_def dict_get_def py_str_def)
  show ?thesis
    by (simp add: CommunicationDrafter_run_def ts s)
qed

section \<open>The loan file: serialising and reloading\<close>

lemma DocumentStatus_round_trip:
  "DocumentStatus_of (JStr (document_status_value st)) = Inr st"
  by (cases st) (simp_all add: DocumentStatus_of_def)

lemma FundingStatus_round_trip:
  "FundingStatus_of (JStr (funding_status_value st)) = Inr st"
  by (cases st) (simp_all add: FundingStatus_of_def)

lemma parse_document_to_dict:
  "parse_document k (document_to_dict v) = Inr (reloaded_document v)"
  by (simp add: parse_document_def document_to_dict_def bind_err_def as_dict_def dict_get_def
        DocumentStatus_round_trip reloaded_document_def)

lemma parse_check_to_dict:
  "parse_check k (check_to_dict v) = Inr (reloaded_check v)"
  by (simp add: parse_check_def check_to_dict_def bind_err_def as_dict_def dict_get_def
        reloaded_check_def)

lemma parse_exception_to_dict:
  "parse_exception (exception_to_dict e) = Inr (reloaded_exception e)"
  by (simp add: parse_exception_def exception_to_dict_def bind_err_def as_dict_def
        dict_get_def reloaded_exception_def)

lemma parse_documents_to_dict:
  "parse_documents (map (\<lambda>kv. (fst kv, document_to_dict (snd kv))) docs) =
     Inr (map (\<lambda>kv. (fst kv, reloaded_document (snd kv))) docs)"
  by (induction docs) (simp_all add: parse_document_to_dict bind_err_def)

lemma parse_checks_to_dict:
  "parse_checks (map (\<lambda>kv. (fst kv, check_to_dict (snd kv))) cs) =
     Inr (map (\<lambda>kv. (fst kv, reloaded_check (snd kv))) cs)"
  by (induction cs) (simp_all add: parse_check_to_dict bind_err_def)

lemma parse_exceptions_to_dict:
  "parse_exceptions (map exception_to_dict es) = Inr (map reloaded_exception es)"
  by (induction es) (simp_all add: parse_exception_to_dict bind_err_def)

text \<open>
  Claim C5, as the code has it. Reloading the dictionary that \<^verbatim>\<open>to_dict\<close> writes always
  succeeds and gives the loan file back with the fields \<^verbatim>\<open>to_dict\<close> does not write reset
  to their defaults: identity, terms, status, target date and communications are
  kept; a document keeps its name, status, received and verified dates; a compliance
  check keeps its name, result and findings; an exception keeps its id, category,
  description and severity, while its created date becomes the empty string and its
  resolved date and resolution become \<^verbatim>\<open>None\<close>.
\<close>

theorem to_dict_from_json:
  "from_json (to_dict self) = Inr (reloaded self)"
  by (simp add: from_json_def to_dict_def bind_err_def as_dict_def dict_get_def subscript_def
        iterate_def parse_documents_to_dict parse_checks_to_dict parse_exceptions_to_dict
        FundingStatus_round_trip reloaded_def)

theorem to_dict_from_json_witness:
  "map_sum id (\<lambda>l. (lf_loan_id l, lf_funding_status l, map fst (lf_documents l),
                     map (d_status \<circ> snd) (lf_documents l),
                     map (c_passed \<circ> snd) (lf_compliance_checks l),
                     map e_exception_id (lf_exceptions l)))
     (from_json (to_dict sample_loan)) =
   Inr (JStr ''LN-1'', VERIFICATION, [''proof_of_income''], [VERIFIED], [JBool True],
        [JStr ''EX-1''])"
  unfolding to_dict_from_json
  by (simp add: reloaded_def sample_loan_def reloaded_document_def reloaded_check_def
        reloaded_exception_def)

text \<open>
  The timestamps of an exception and of a compliance check do not survive the reload.
\<close>

theorem to_dict_from_json_counterexample:
  "map_sum id (\<lambda>l. map (\<lambda>e. (e_created_date e, e_resolved_date e, e_resolution e))
                     (lf_exceptions l))
     (from_json (to_dict sample_loan)) = Inr [(JStr '''', JNull, JNull)] \<and>
   map (\<lambda>e. (e_created_date e, e_resolved_date e, e_resolution e))
     (lf_exceptions sample_loan) =
     [(JStr ''2024-01-15'', JStr ''2024-01-20'', JStr ''received'')] \<and>
   map_sum id (\<lambda>l. map (c_checked_date \<circ> snd) (lf_compliance_checks l))
     (from_json (to_dict sample_loan)) = Inr [JNull] \<and>
   map (c_checked_date \<circ> snd) (lf_compliance_checks sample_loan) = [JStr ''2024-01-13''] \<and>
   from_json (to_dict sample_loan) \<noteq> Inr sample_loan"
proof -
  have run: "from_json (to_dict sample_loan) =
    Inr (sample_loan\<lparr>
      lf_documents :=
        [(''proof_of_income'',
          \<lparr>d_name = JStr ''proof_of_income'', d_status = VERIFIED,
           d_received_date = JStr ''2024-01-11'', d_verified_date = JStr ''2024-01-12'',
           d_verified_by = JNull, d_rejection_reason = JNull,
           d_expiration_date = JNull, d_notes = JNull\<rparr>)],
      lf_compliance_checks :=
        [(''know_your_customer'',
          \<lparr>c_check_name = JStr ''know_your_customer'', c_passed = JBool True,
           c_checked_date = JNull, c_checked_by = JNull, c_findings = JNull,
           c_requires_override = JBool False\<rparr>)],
      lf_exceptions :=
        [\<lparr>e_exception_id = JStr ''EX-1'', e_category = JStr ''document'',
          e_description = JStr ''late'', e_severity = JStr ''low'',
          e_created_date = JStr '''', e_resolved_date = JNull,
          e_resolution = JNull, e_assigned_to = JNull\<rparr>]\<rparr>)"
    by (simp add: from_json_def to_dict_def bind_err_def as_dict_def dict_get_def
          subscript_def iterate_def sample_loan_def parse_document_def parse_check_def
          parse_exception_def document_to_dict_def check_to_dict_def exception_to_dict_def
          DocumentStatus_of_def FundingStatus_of_def)
  have orig: "map (\<lambda>e. (e_created_date e, e_resolved_date e, e_resolution e))
     (lf_exceptions sample_loan) =
     [(JStr ''2024-01-15'', JStr ''2024-01-20'', JStr ''received'')]"
    "map (c_checked_date \<circ> snd) (lf_compliance_checks sample_loan) = [JStr ''2024-01-13'']"
    by (simp_all add: sample_loan_def)
  have ne: "from_json (to_dict sample_loan) \<noteq> Inr sample_loan"
  proof
    assume "from_json (to_dict sample_loan) = Inr sample_loan"
    then have "map_sum id lf_exceptions (from_json (to_dict sample_loan)) =
               Inr (lf_exceptions sample_loan)" by simp
    then show False by (simp add: run) (simp add: sample_loan_def)
  qed
  from orig ne show ?thesis by (simp add: run)
qed

section \<open>Two runs of the stage tools\<close>

lemma expiration_check_clock:
  assumes "expiry_verdict strptime clock1 name data = expiry_verdict strptime clock2 name data"
  shows "expiration_check strptime clock1 name data checks =
         expiration_check strptime clock2 name data checks"
proof (cases "name \<in> set date_sensitive")
  case False
  then show ?thesis by (simp add: expiration_check_def)
next
  case True
  show ?thesis
  proof (cases "dict_get data ''document_date'' JNull")
    case (JStr s)
    show ?thesis
    proof (cases "strptime s")
      case None
      with True JStr show ?thesis by (simp add: expiration_check_def)
    next
      case (Some d)
      with True JStr assms have
        "(timedelta_days (clock1 0) (midnight d) > 90) =
         (timedelta_days (clock2 0) (midnight d) > 90)"
        by (simp add: expiry_verdict_def)
      with True JStr Some show ?thesis by (simp add: expiration_check_def)
    qed
  qed (use True in \<open>simp_all add: expiration_check_def\<close>)
qed

lemma verifier_two_runs:
  assumes "expiry_verdict strptime clock1 name data = expiry_verdict strptime clock2 name data"
  shows "map_sum id normalize_verifier (DocumentVerifier_run strptime clock1 name data) =
         map_sum id normalize_verifier (DocumentVerifier_run strptime clock2 name data)"
  unfolding DocumentVerifier_run_def expiration_check_clock [OF assms, of "initial_checks data"]
  by (cases "expiration_check strptime clock2 name data (initial_checks data)")
     (auto simp: normalize_verifier_def Let_def)

lemma same_day_verdict:
  assumes "valid_datetime (clock1 0)" and "valid_datetime (clock2 0)"
    and "ordinal (clock1 0) = ordinal (clock2 0)"
  shows "expiry_verdict strptime clock1 name data = expiry_verdict strptime clock2 name data"
  unfolding expiry_verdict_def
  by (simp add: days_since_midnight assms split: json.splits option.splits)

lemma check_entry_parts:
  "fst (check_entry data clock ic) = snd ic"
  "passed (snd (check_entry data clock ic)) = fst (run_check data (snd ic))"
  "(snd (check_entry data clock ic))\<lparr>checked_date := t\<rparr> =
     \<lparr>check_name = snd ic, passed = fst (run_check data (snd ic)),
      findings = snd (run_check data (snd ic)), checked_date = t\<rparr>"
  by (cases ic; simp add: check_entry_def)+

lemma compliance_two_runs:
  "normalize_compliance (ComplianceValidator_run clock1 loan_id data) =
   normalize_compliance (ComplianceValidator_run clock2 loan_id data)"
  by (simp add: normalize_compliance_def ComplianceValidator_run_def Let_def
        list_all_iff filter_map comp_def check_entry_parts)

lemma funding_two_runs:
  "map_sum id normalize_funding (FundingCalculator_run ar clock1 a rate lt fd) =
   map_sum id normalize_funding (FundingCalculator_run ar clock2 a rate lt fd)"
  unfolding FundingCalculator_run_def Let_def bind_err_def
  by (simp add: normalize_funding_def split: sum.splits)

lemma communication_two_runs:
  "map_sum id normalize_communication
     (CommunicationDrafter_run repr fmt2f clock1 ctype name ctx) =
   map_sum id normalize_communication
     (CommunicationDrafter_run repr fmt2f clock2 ctype name ctx)"
  unfolding CommunicationDrafter_run_def Let_def
  by (cases "templates repr fmt2f name ctx") (simp_all add: normalize_communication_def)

text \<open>
  Claim C8, as the code has it. With the timestamps overwritten, two runs on the same
  input give the same output of the compliance validator, of the funding calculator
  and of the communication drafter, whatever the two clocks return. The document
  verifier gives the same output in both runs when the two clocks agree on whether the
  stated date of a date-sensitive document is more than 90 days old, in particular
  when both runs read the clock on the same day. The document checker and the
  exception analyzer do not read the clock at all.
\<close>

theorem stage_outputs_two_runs:
  "normalize_compliance (ComplianceValidator_run clock1 loan_id data) =
     normalize_compliance (ComplianceValidator_run clock2 loan_id data) \<and>
   map_sum id normalize_funding (FundingCalculator_run ar clock1 a rate lt fd) =
     map_sum id normalize_funding (FundingCalculator_run ar clock2 a rate lt fd) \<and>
   map_sum id normalize_communication
       (CommunicationDrafter_run repr fmt2f clock1 ctype recipient_name ctx) =
     map_sum id normalize_communication
       (CommunicationDrafter_run repr fmt2f clock2 ctype recipient_name ctx) \<and>
   (expiry_verdict strptime clock1 name vdata = expiry_verdict strptime clock2 name vdata \<longrightarrow>
      map_sum id normalize_verifier (DocumentVerifier_run strptime clock1 name vdata) =
      map_sum id normalize_verifier (DocumentVerifier_run strptime clock2 name vdata)) \<and>
   (valid_datetime (clock1 0) \<and> valid_datetime (clock2 0) \<and>
    ordinal (clock1 0) = ordinal (clock2 0) \<longrightarrow>
      map_sum id normalize_verifier (DocumentVerifier_run strptime clock1 name vdata) =
      map_sum id normalize_verifier (DocumentVerifier_run strptime clock2 name vdata))"
proof (intro conjI impI)
  show "normalize_compliance (ComplianceValidator_run clock1 loan_id data) =
     normalize_compliance (ComplianceValidator_run clock2 loan_id data)"
    by (rule compliance_two_runs)
  show "map_sum id normalize_funding (FundingCalculator_run ar clock1 a rate lt fd) =
     map_sum id normalize_funding (FundingCalculator_run ar clock2 a rate lt fd)"
    by (rule funding_two_runs)
  show "map_sum id normalize_communication
       (CommunicationDrafter_run repr fmt2f clock1 ctype recipient_name ctx) =
     map_sum id normalize_communication
       (CommunicationDrafter_run repr fmt2f clock2 ctype recipient_name ctx)"
    by (rule communication_two_runs)
next
  assume "expiry_verdict strptime clock1 name vdata = expiry_verdict strptime clock2 name vdata"
  then show "map_sum id normalize_verifier (DocumentVerifier_run strptime clock1 name vdata) =
      map_sum id normalize_verifier (DocumentVerifier_run strptime clock2 name vdata)"
    by (rule verifier_two_runs)
next
  assume "valid_datetime (clock1 0) \<and> valid_datetime (clock2 0) \<and>
    ordinal (clock1 0) = ordinal (clock2 0)"
  then have "expiry_verdict strptime clock1 name vdata =
             expiry_verdict strptime clock2 name vdata"
    by (simp add: same_day_verdict)
  then show "map_sum id normalize_verifier (DocumentVerifier_run strptime clock1 name vdata) =
      map_sum id normalize_verifier (DocumentVerifier_run strptime clock2 name vdata)"
    by (rule verifier_two_runs)
qed

theorem stage_outputs_two_runs_witness:
  "valid_datetime (morning_after 90 0) \<and> valid_datetime (noon_after 90 0) \<and>
   ordinal (morning_after 90 0) = ordinal (noon_after 90 0) \<and>
   map_sum id normalize_verifier
     (DocumentVerifier_run sample_strptime (morning_after 90) ''bank_statements''
        [(''document_date'', JStr ''2024-01-01'')]) =
   map_sum id normalize_verifier
     (DocumentVerifier_run sample_strptime (noon_after 90) ''bank_statements''
        [(''document_date'', JStr ''2024-01-01'')]) \<and>
   expiry_verdict sample_strptime (noon_after 100) ''bank_statements''
       [(''document_date'', JStr ''2024-01-01'')] =
     expiry_verdict sample_strptime (noon_after 200) ''bank_statements''
       [(''document_date'', JStr ''2024-01-01'')] \<and>
   map_sum id normalize_verifier
     (DocumentVerifier_run sample_strptime (noon_after 100) ''bank_statements''
        [(''document_date'', JStr ''2024-01-01'')]) =
   map_sum id normalize_verifier
     (DocumentVerifier_run sample_strptime (noon_after 200) ''bank_statements''
        [(''document_date'', JStr ''2024-01-01'')])"
proof -
  have h: "valid_datetime (morning_after 90 0) \<and> valid_datetime (noon_after 90 0) \<and>
    ordinal (morning_after 90 0) = ordinal (noon_after 90 0)"
    by (simp add: valid_datetime_def morning_after_def noon_after_def micros_per_day_def)
  note main = stage_outputs_two_runs
    [of "morning_after 90" "''LN-1''" "[]" "noon_after 90" _ _ _ "''personal''" "[]"
        sample_repr sample_fmt2f "''status_update''" "''Ada''" "[]" sample_strptime
        "''bank_statements''" "[(''document_date'', JStr ''2024-01-01'')]"]
  note same = main [THEN conjunct2, THEN conjunct2, THEN conjunct2, THEN conjunct2,
    THEN mp, OF h]
  have e: "expiry_verdict sample_strptime (noon_after 100) ''bank_statements''
       [(''document_date'', JStr ''2024-01-01'')] =
     expiry_verdict sample_strptime (noon_after 200) ''bank_statements''
       [(''document_date'', JStr ''2024-01-01'')]"
    by (simp add: expiry_verdict_def date_sensitive_def dict_get_def sample_strptime_def
          timedelta_days_def elapsed_micros_def midnight_def micros_per_day_def
          noon_after_def)
  note late = stage_outputs_two_runs
    [of "noon_after 100" "''LN-1''" "[]" "noon_after 200" _ _ _ "''personal''" "[]"
        sample_repr sample_fmt2f "''status_update''" "''Ada''" "[]" sample_strptime
        "''bank_statements''" "[(''document_date'', JStr ''2024-01-01'')]",
     THEN conjunct2, THEN conjunct2, THEN conjunct2, THEN conjunct1, THEN mp, OF e]
  from h same e late show ?thesis by (intro conjI) simp_all
qed

lemma fresh_run:
  "DocumentVerifier_run sample_strptime (noon_after 90) ''bank_statements''
     [(''document_date'', JStr ''2024-01-01'')] =
   Inr \<lparr>vr_document_name = ''bank_statements'',
        verification_passed = True,
        verification_date = noon_after 90 1,
        checks_performed =
          [(''document_present'', JBool True), (''legible'', JBool True),
           (''complete'', JBool True), (''not_expired'', JBool True),
           (''signatures_valid'', JBool True), (''dates_consistent'', JBool True)],
        vr_failed_checks = [],
        vr_recommendation = ''VERIFIED'',
        vr_notes = ''Document verified successfully''\<rparr>"
  by (simp add: DocumentVerifier_run_def expiration_check_def date_sensitive_def
        dict_get_def sample_strptime_def timedelta_days_def elapsed_micros_def midnight_def
        micros_per_day_def noon_after_def initial_checks_def falsy_keys_def)

text \<open>
  A bank statement dated 90 days before the first run and 91 days before the second
  is verified in the first run and requires attention in the second: the outputs
  differ beyond their timestamps.
\<close>

theorem verifier_two_runs_counterexample:
  "map_sum id (vr_recommendation \<circ> normalize_verifier)
     (DocumentVerifier_run sample_strptime (noon_after 90) ''bank_statements''
        [(''document_date'', JStr ''2024-01-01'')]) = Inr ''VERIFIED'' \<and>
   map_sum id (vr_recommendation \<circ> normalize_verifier)
     (DocumentVerifier_run sample_strptime (noon_after 91) ''bank_statements''
        [(''document_date'', JStr ''2024-01-01'')]) = Inr ''REQUIRES_ATTENTION'' \<and>
   map_sum id normalize_verifier
     (DocumentVerifier_run sample_strptime (noon_after 90) ''bank_statements''
        [(''document_date'', JStr ''2024-01-01'')]) \<noteq>
   map_sum id normalize_verifier
     (DocumentVerifier_run sample_strptime (noon_after 91) ''bank_statements''
        [(''document_date'', JStr ''2024-01-01'')])"
  by (simp add: fresh_run sample_run normalize_verifier_def)

end
